theory Spec2Isabelle
  imports Complex_Main "HOL-Library.AList" "HOL-Library.Sublist"
begin

section \<open>JavaScript values, strings and objects\<close>

text \<open>
  The rows of the table and the properties of a GeoJSON feature are plain JavaScript
  objects whose fields hold arbitrary values (\<^verbatim>\<open>[key: string]: any\<close>). A value is a
  primitive or a reference to an object or array; a number is a finite value (the two
  zeros are one value, as they are for \<^verbatim>\<open>===\<close> and for truthiness) or NaN. Only
  equality and truthiness of numbers are used by the code below, never arithmetic.
\<close>

datatype jsval =
    JSUndefined
  | JSNull
  | JSBool bool
  | JSNum real
  | JSNaN
  | JSStr string
  | JSRef nat

text \<open>
  An object is its list of own properties in enumeration order (string keys in creation
  order). A well-formed object has no key twice.
\<close>

type_synonym jsobject = "(string \<times> jsval) list"

definition wf_object :: "jsobject \<Rightarrow> bool" where
  "wf_object obj = distinct (map fst obj)"

text \<open>
  The read of an own property: \<^verbatim>\<open>obj[key]\<close> for a key that the object holds itself,
  and \<^verbatim>\<open>undefined\<close> when it holds none of that name.
\<close>

definition get :: "jsobject \<Rightarrow> string \<Rightarrow> jsval" where
  "get obj key = (case map_of obj key of None \<Rightarrow> JSUndefined | Some v \<Rightarrow> v)"

text \<open>
  The read \<^verbatim>\<open>obj[key]\<close> of a plain object in full: the own property when there is
  one, and otherwise the property of that name which the object inherits, \<open>proto\<close>
  being the properties of its prototype.
\<close>

definition get_inherited :: "jsobject \<Rightarrow> jsobject \<Rightarrow> string \<Rightarrow> jsval" where
  "get_inherited proto obj key =
     (case map_of obj key of None \<Rightarrow> get proto key | Some v \<Rightarrow> v)"

text \<open>
  What every plain object inherits on the language's standard prototype: the built-in
  methods, each a function object (a reference), and the \<^verbatim>\<open>__proto__\<close> accessor, which
  reads as the prototype object itself.
\<close>

definition Object_prototype :: jsobject where
  "Object_prototype =
     [(''constructor'', JSRef 0), (''hasOwnProperty'', JSRef 1), (''isPrototypeOf'', JSRef 2),
      (''propertyIsEnumerable'', JSRef 3), (''toLocaleString'', JSRef 4), (''toString'', JSRef 5),
      (''valueOf'', JSRef 6), (''__defineGetter__'', JSRef 7), (''__defineSetter__'', JSRef 8),
      (''__lookupGetter__'', JSRef 9), (''__lookupSetter__'', JSRef 10), (''__proto__'', JSRef 11)]"

text \<open>\<^verbatim>\<open>Object.keys(obj)\<close> and the keys visited by \<^verbatim>\<open>for (const key in obj)\<close>.\<close>

definition Object_keys :: "jsobject \<Rightarrow> string list" where
  "Object_keys obj = map fst obj"

text \<open>
  Writing one property, as one entry of an object literal does: an existing key keeps
  its place and takes the new value, a new key goes to the end.
\<close>

definition set_prop :: "string \<Rightarrow> jsval \<Rightarrow> jsobject \<Rightarrow> jsobject" where
  "set_prop key v obj = AList.update key v obj"

text \<open>The spread \<^verbatim>\<open>{...base, ...src}\<close>: the properties of \<open>src\<close> written in order.\<close>

definition spread :: "jsobject \<Rightarrow> jsobject \<Rightarrow> jsobject" where
  "spread src base = fold (\<lambda>(k, v). set_prop k v) src base"

text \<open>Strict equality \<^verbatim>\<open>a === b\<close>: NaN equals nothing, objects are compared by reference.\<close>

definition strict_eq :: "jsval \<Rightarrow> jsval \<Rightarrow> bool" where
  "strict_eq a b = (a = b \<and> a \<noteq> JSNaN)"

text \<open>Truthiness, as tested by \<^verbatim>\<open>if (v)\<close>, \<^verbatim>\<open>a && b\<close> and \<^verbatim>\<open>a || b\<close>.\<close>

fun truthy :: "jsval \<Rightarrow> bool" where
  "truthy JSUndefined = False"
| "truthy JSNull = False"
| "truthy (JSBool b) = b"
| "truthy (JSNum r) = (r \<noteq> 0)"
| "truthy JSNaN = False"
| "truthy (JSStr s) = (s \<noteq> [])"
| "truthy (JSRef r) = True"

definition js_or :: "jsval \<Rightarrow> jsval \<Rightarrow> jsval" where
  "js_or a b = (if truthy a then a else b)"

definition js_and :: "jsval \<Rightarrow> jsval \<Rightarrow> jsval" where
  "js_and a b = (if truthy a then b else a)"

text \<open>
  \<^verbatim>\<open>String(v)\<close>. The decimal rendering of a number and the rendering of an object are
  the platform's; they are the parameter \<open>fmt\<close>.
\<close>

fun String_of :: "(jsval \<Rightarrow> string) \<Rightarrow> jsval \<Rightarrow> string" where
  "String_of fmt JSUndefined = ''undefined''"
| "String_of fmt JSNull = ''null''"
| "String_of fmt (JSBool b) = (if b then ''true'' else ''false'')"
| "String_of fmt JSNaN = ''NaN''"
| "String_of fmt (JSStr s) = s"
| "String_of fmt v = fmt v"

text \<open>
  \<^verbatim>\<open>toLowerCase\<close> on the ASCII letters; other characters are left as they are.
\<close>

definition lower_char :: "char \<Rightarrow> char" where
  "lower_char c =
     (let n = (of_char c :: nat) in if 65 \<le> n \<and> n \<le> 90 then char_of (n + 32) else c)"

definition toLowerCase :: "string \<Rightarrow> string" where
  "toLowerCase s = map lower_char s"

text \<open>\<^verbatim>\<open>s.startsWith(q)\<close> and \<^verbatim>\<open>s.includes(q)\<close>.\<close>

fun startsWith :: "string \<Rightarrow> string \<Rightarrow> bool" where
  "startsWith s [] = True"
| "startsWith [] (q # qs) = False"
| "startsWith (c # cs) (q # qs) = (c = q \<and> startsWith cs qs)"

fun str_includes :: "string \<Rightarrow> string \<Rightarrow> bool" where
  "str_includes [] q = (q = [])"
| "str_includes (c # cs) q = (startsWith (c # cs) q \<or> str_includes cs q)"

text \<open>\<^verbatim>\<open>s.split(sep)\<close> for a one-character separator: never the empty array.\<close>

fun split_on :: "char \<Rightarrow> string \<Rightarrow> string list" where
  "split_on sep [] = [[]]"
| "split_on sep (c # cs) =
     (if c = sep then [] # split_on sep cs
      else (case split_on sep cs of
              [] \<Rightarrow> [[c]]
            | seg # segs \<Rightarrow> (c # seg) # segs))"

section \<open>dataUtils: table rows\<close>

text \<open>
  \<^verbatim>\<open>filterMonopiles(monopiles, query, idColumnKey)\<close>: the predicate of the
  \<^verbatim>\<open>filter\<close> call first, then the function.
\<close>

definition monopile_matches :: "(jsval \<Rightarrow> string) \<Rightarrow> string \<Rightarrow> string \<Rightarrow> jsobject \<Rightarrow> bool" where
  "monopile_matches fmt lowerQuery idColumnKey monopile =
     (if idColumnKey \<noteq> [] \<and>
         str_includes (toLowerCase (String_of fmt (get monopile idColumnKey))) lowerQuery
      then True
      else list_ex
             (\<lambda>key. str_includes (toLowerCase (String_of fmt (get monopile key))) lowerQuery)
             (Object_keys monopile))"

definition filterMonopiles ::
  "(jsval \<Rightarrow> string) \<Rightarrow> jsobject list \<Rightarrow> string \<Rightarrow> string \<Rightarrow> jsobject list" where
  "filterMonopiles fmt monopiles query idColumnKey =
     (if query = [] then monopiles
      else filter (monopile_matches fmt (toLowerCase query) idColumnKey) monopiles)"

text \<open>
  \<^verbatim>\<open>updateMonopileCoordinates(monopiles, idColumnKey, id, lat, lng)\<close>. The identifier
  and the coordinates are taken as arbitrary values, which covers the declared
  \<^verbatim>\<open>string\<close> and \<^verbatim>\<open>number\<close> arguments.
\<close>

definition updateMonopileCoordinates ::
  "jsobject list \<Rightarrow> string \<Rightarrow> jsval \<Rightarrow> jsval \<Rightarrow> jsval \<Rightarrow> jsobject list" where
  "updateMonopileCoordinates monopiles idColumnKey ident lat lng =
     map (\<lambda>monopile.
            if strict_eq (get monopile idColumnKey) ident
            then set_prop ''lng'' lng (set_prop ''lat'' lat monopile)
            else monopile)
         monopiles"

text \<open>
  The merge of linked points into the table rows, written twice in the page component
  (\<^verbatim>\<open>handleIdColumnSelect\<close> and \<^verbatim>\<open>handleGeoJsonIdColumnSelect\<close>):
  \<^verbatim>\<open>prev.rows.map(row => { const match = monopiles.find(m => m[columnKey] === row[columnKey]);
     if (match) return {...row, lat: match.lat, lng: match.lng}; return row; })\<close>.
  A found match is an object, hence truthy.
\<close>

definition mergeCoordinates :: "jsobject list \<Rightarrow> string \<Rightarrow> jsobject list \<Rightarrow> jsobject list" where
  "mergeCoordinates monopiles columnKey rows =
     map (\<lambda>row.
            case find (\<lambda>m. strict_eq (get m columnKey) (get row columnKey)) monopiles of
              Some match \<Rightarrow>
                set_prop ''lng'' (get match ''lng'') (set_prop ''lat'' (get match ''lat'') row)
            | None \<Rightarrow> row)
         rows"

section \<open>Errors\<close>

text \<open>
  Every \<^verbatim>\<open>throw\<close> of the code and of the platform calls it makes:
  \<^verbatim>\<open>Error('Unsupported file format')\<close>, an exception of the workbook reader (with its
  message), the \<^verbatim>\<open>SyntaxError\<close> of \<^verbatim>\<open>JSON.parse\<close>,
  \<^verbatim>\<open>Error('Invalid point coordinates in GeoJSON')\<close>, a \<^verbatim>\<open>TypeError\<close> on reading a
  property of \<^verbatim>\<open>null\<close>, and the map's refusal of a source identifier already in use.
\<close>

datatype error =
    UnsupportedFormat
  | WorkbookError string
  | MalformedGeoJson
  | InvalidGeometry
  | TypeError
  | SourceExists

section \<open>GeoJSON\<close>

text \<open>
  A geometry has a type and coordinates; the coordinates of a Point are an array of
  numbers (absent or \<^verbatim>\<open>null\<close> is \<open>None\<close>). A feature may have a \<^verbatim>\<open>null\<close>
  geometry and \<^verbatim>\<open>null\<close> properties.
\<close>

record geometry =
  gtype :: string
  coordinates :: "jsval list option"

record feature =
  ftype :: string
  geometry :: "geometry option"
  properties :: "jsobject option"

record geojson =
  ctype :: string
  features :: "feature list"

text \<open>\<^verbatim>\<open>Array.prototype.map\<close> with a callback that may throw: the first throw ends it.\<close>

fun map_result :: "('a \<Rightarrow> 'e + 'b) \<Rightarrow> 'a list \<Rightarrow> 'e + 'b list" where
  "map_result f [] = Inr []"
| "map_result f (x # xs) =
     (case f x of
        Inl e \<Rightarrow> Inl e
      | Inr y \<Rightarrow> (case map_result f xs of Inl e \<Rightarrow> Inl e | Inr ys \<Rightarrow> Inr (y # ys)))"

text \<open>
  \<^verbatim>\<open>extractMonopilesFromGeoJson(geojson, idColumnKey)\<close>: the predicate of its
  \<^verbatim>\<open>filter\<close>, the callback of its \<^verbatim>\<open>map\<close>, and the function. The properties of
  a feature are a plain object, and the key read from them is any string the caller
  chose, so \<^verbatim>\<open>properties[idColumnKey]\<close> is the read in full, with \<open>proto\<close> what plain
  objects inherit.
\<close>

definition is_point_feature :: "feature \<Rightarrow> bool" where
  "is_point_feature f = (case geometry f of None \<Rightarrow> False | Some g \<Rightarrow> gtype g = ''Point'')"

text \<open>\<^verbatim>\<open>feature.properties || {}\<close>.\<close>

definition properties_or_empty :: "feature \<Rightarrow> jsobject" where
  "properties_or_empty f = (case properties f of None \<Rightarrow> [] | Some p \<Rightarrow> p)"

definition extract_monopile :: "jsobject \<Rightarrow> string \<Rightarrow> feature \<Rightarrow> error + jsobject" where
  "extract_monopile proto idColumnKey f =
     (case geometry f of
        None \<Rightarrow> Inl TypeError
      | Some pointGeom \<Rightarrow>
          (case coordinates pointGeom of
             None \<Rightarrow> Inl InvalidGeometry
           | Some cs \<Rightarrow>
               if length cs < 2 then Inl InvalidGeometry
               else
                 (let props = properties_or_empty f in
                  Inr (set_prop ''lng'' (cs ! 0)
                        (set_prop ''lat'' (cs ! 1)
                          (spread props
                            [(''id'', js_or (get_inherited proto props idColumnKey)
                                        (JSStr ''unknown''))]))))))"

definition extractMonopilesFromGeoJson ::
  "jsobject \<Rightarrow> geojson \<Rightarrow> string \<Rightarrow> error + jsobject list" where
  "extractMonopilesFromGeoJson proto g idColumnKey =
     map_result (extract_monopile proto idColumnKey) (filter is_point_feature (features g))"

text \<open>
  The features built from the rows, written twice in the map utilities (in
  \<^verbatim>\<open>addMonopiles\<close> and in \<^verbatim>\<open>createGeoJsonFromMonopiles\<close>):
  \<^verbatim>\<open>monopiles.filter(m => m.lat && m.lng).map(monopile => ({type: 'Feature',
     geometry: {type: 'Point', coordinates: [monopile.lng, monopile.lat]},
     properties: {id: monopile[idColumnKey], ...monopile}}))\<close>.
\<close>

definition has_coordinates :: "jsobject \<Rightarrow> bool" where
  "has_coordinates m = truthy (js_and (get m ''lat'') (get m ''lng''))"

definition monopile_feature :: "string \<Rightarrow> jsobject \<Rightarrow> feature" where
  "monopile_feature idColumnKey monopile =
     \<lparr>ftype = ''Feature'',
      geometry = Some \<lparr>gtype = ''Point'',
                       coordinates = Some [get monopile ''lng'', get monopile ''lat'']\<rparr>,
      properties = Some (spread monopile [(''id'', get monopile idColumnKey)])\<rparr>"

definition monopile_features :: "jsobject list \<Rightarrow> string \<Rightarrow> feature list" where
  "monopile_features monopiles idColumnKey =
     map (monopile_feature idColumnKey) (filter has_coordinates monopiles)"

definition createGeoJsonFromMonopiles :: "jsobject list \<Rightarrow> string \<Rightarrow> geojson" where
  "createGeoJsonFromMonopiles monopiles idColumnKey =
     \<lparr>ctype = ''FeatureCollection'', features = monopile_features monopiles idColumnKey\<rparr>"

section \<open>The map widget\<close>

text \<open>
  The state of the map that the utilities read and write: the camera, the GeoJSON
  sources by identifier, and the layers by identifier in stacking order. The visible
  bounds are a function of the camera and the size of the container.
\<close>

record camera =
  center :: "real \<times> real"
  zoom :: real

datatype filter_expr =
    TypeEq string
  | InProperty string "jsval list"
  | AllOf filter_expr filter_expr

record layer =
  layer_type :: string
  layer_source :: string
  paint :: "(string \<times> jsval) list"
  layer_filter :: "filter_expr option"

record map_state =
  map_camera :: camera
  sources :: "(string \<times> geojson) list"
  layers :: "(string \<times> layer) list"

record monopileStyle =
  color :: string
  style_size :: real
  borderColor :: string
  borderWidth :: real

definition getSource :: "map_state \<Rightarrow> string \<Rightarrow> geojson option" where
  "getSource m ident = map_of (sources m) ident"

definition getLayer :: "map_state \<Rightarrow> string \<Rightarrow> layer option" where
  "getLayer m ident = map_of (layers m) ident"

text \<open>
  \<^verbatim>\<open>removeLayer\<close> and \<^verbatim>\<open>removeSource\<close>. The code calls them only under
  \<^verbatim>\<open>if (map.getSource(...))\<close>, the layer of a source before the source.
\<close>

definition removeLayer :: "map_state \<Rightarrow> string \<Rightarrow> map_state" where
  "removeLayer m ident = m\<lparr>layers := AList.delete ident (layers m)\<rparr>"

definition removeSource :: "map_state \<Rightarrow> string \<Rightarrow> map_state" where
  "removeSource m ident = m\<lparr>sources := AList.delete ident (sources m)\<rparr>"

text \<open>\<^verbatim>\<open>addSource\<close> throws when the identifier is in use.\<close>

definition addSource :: "map_state \<Rightarrow> string \<Rightarrow> geojson \<Rightarrow> error + map_state" where
  "addSource m ident d =
     (if getSource m ident \<noteq> None then Inl SourceExists
      else Inr (m\<lparr>sources := sources m @ [(ident, d)]\<rparr>))"

text \<open>
  \<^verbatim>\<open>addLayer\<close> and \<^verbatim>\<open>setFilter\<close> do not throw: on an identifier in use, or
  unknown, they report through the map's error event and change nothing.
\<close>

definition addLayer :: "map_state \<Rightarrow> string \<Rightarrow> layer \<Rightarrow> map_state" where
  "addLayer m ident l =
     (if getLayer m ident \<noteq> None then m else m\<lparr>layers := layers m @ [(ident, l)]\<rparr>)"

definition setFilter :: "map_state \<Rightarrow> string \<Rightarrow> filter_expr option \<Rightarrow> map_state" where
  "setFilter m ident f =
     (case getLayer m ident of
        None \<Rightarrow> m
      | Some l \<Rightarrow> m\<lparr>layers := AList.update ident (l\<lparr>layer_filter := f\<rparr>) (layers m)\<rparr>)"

text \<open>
  \<^verbatim>\<open>fitBounds(bounds, {padding: 50})\<close>: the camera that shows the box around the
  given coordinates is computed by the library; it is the parameter \<open>fit\<close>.
\<close>

definition fitBounds ::
  "(jsval list list \<Rightarrow> camera \<Rightarrow> camera) \<Rightarrow> map_state \<Rightarrow> jsval list list \<Rightarrow> map_state" where
  "fitBounds fit m coords = m\<lparr>map_camera := fit coords (map_camera m)\<rparr>"

text \<open>
  \<^verbatim>\<open>feature.geometry.coordinates\<close>, as read when the bounds are extended (of a
  feature that holds coordinates; no coordinates read as the empty array here).
\<close>

definition feature_coordinates :: "feature \<Rightarrow> jsval list" where
  "feature_coordinates f =
     (case geometry f of
        None \<Rightarrow> []
      | Some g \<Rightarrow> (case coordinates g of None \<Rightarrow> [] | Some cs \<Rightarrow> cs))"

text \<open>\<^verbatim>\<open>addMonopiles(map, monopiles, idColumnKey, style)\<close>.\<close>

definition addMonopiles ::
  "(jsval list list \<Rightarrow> camera \<Rightarrow> camera) \<Rightarrow> map_state \<Rightarrow> jsobject list \<Rightarrow> string \<Rightarrow>
     monopileStyle \<Rightarrow> error + map_state" where
  "addMonopiles fit m monopiles idColumnKey style =
     (let m1 = (if getSource m ''monopile-data'' \<noteq> None
                then removeSource (removeLayer m ''monopile-layer'') ''monopile-data''
                else m);
          fs = monopile_features monopiles idColumnKey;
          gj = \<lparr>ctype = ''FeatureCollection'', features = fs\<rparr>
      in case addSource m1 ''monopile-data'' gj of
           Inl e \<Rightarrow> Inl e
         | Inr m2 \<Rightarrow>
             (let m3 = addLayer m2 ''monopile-layer''
                         \<lparr>layer_type = ''circle'', layer_source = ''monopile-data'',
                          paint = [(''circle-color'', JSStr (color style)),
                                   (''circle-radius'', JSNum (style_size style)),
                                   (''circle-stroke-color'', JSStr (borderColor style)),
                                   (''circle-stroke-width'', JSNum (borderWidth style))],
                          layer_filter = None\<rparr>
              in Inr (if fs \<noteq> []
                      then fitBounds fit m3
                             (map feature_coordinates fs)
                      else m3)))"

text \<open>\<^verbatim>\<open>filterMonopilesByIds(map, ids, idColumnKey)\<close>.\<close>

definition filterMonopilesByIds :: "map_state \<Rightarrow> jsval list \<Rightarrow> string \<Rightarrow> map_state" where
  "filterMonopilesByIds m ids idColumnKey =
     (if getSource m ''monopile-data'' = None then m
      else if ids = [] then setFilter m ''monopile-layer'' None
      else setFilter m ''monopile-layer'' (Some (InProperty idColumnKey ids)))"

text \<open>
  \<^verbatim>\<open>filterGeoJsonByProperty(map, propertyKey, propertyValues)\<close>: the type filter each
  overlay layer keeps, the two loop bodies, and the function.
\<close>

definition overlay_layers :: "string list" where
  "overlay_layers = [''geojson-fill-layer'', ''geojson-line-layer'', ''geojson-point-layer'']"

definition baseFilter :: "string \<Rightarrow> filter_expr option" where
  "baseFilter layerId =
     (if layerId = ''geojson-point-layer'' then Some (TypeEq ''Point'')
      else if layerId = ''geojson-fill-layer'' then Some (TypeEq ''Polygon'')
      else None)"

definition show_all_step :: "string \<Rightarrow> map_state \<Rightarrow> map_state" where
  "show_all_step layerId m =
     (if getLayer m layerId \<noteq> None then
        (if layerId = ''geojson-point-layer'' then setFilter m layerId (Some (TypeEq ''Point''))
         else if layerId = ''geojson-fill-layer'' then setFilter m layerId (Some (TypeEq ''Polygon''))
         else setFilter m layerId None)
      else m)"

definition apply_filter_step :: "string \<Rightarrow> jsval list \<Rightarrow> string \<Rightarrow> map_state \<Rightarrow> map_state" where
  "apply_filter_step propertyKey propertyValues layerId m =
     (if getLayer m layerId \<noteq> None then
        (let propertyFilter = InProperty propertyKey propertyValues in
         case baseFilter layerId of
           Some b \<Rightarrow> setFilter m layerId (Some (AllOf b propertyFilter))
         | None \<Rightarrow> setFilter m layerId (Some propertyFilter))
      else m)"

definition filterGeoJsonByProperty :: "map_state \<Rightarrow> string \<Rightarrow> jsval list \<Rightarrow> map_state" where
  "filterGeoJsonByProperty m propertyKey propertyValues =
     (if getSource m ''geojson-data'' = None then m
      else if propertyValues = [] then fold show_all_step overlay_layers m
      else fold (apply_filter_step propertyKey propertyValues) overlay_layers m)"

section \<open>dataUtils: uploaded files\<close>

text \<open>An uploaded file: its name and its content.\<close>

record File =
  file_name :: string
  file_content :: string

record columnOption =
  col_value :: string
  col_label :: string

record tableData =
  columns :: "columnOption list"
  rows :: "jsobject list"
  idColumnKey :: "string option"

text \<open>A workbook as the reader returns it: the sheet names and the sheets by name.\<close>

record 'ws workbook =
  SheetNames :: "string list"
  Sheets :: "(string \<times> 'ws) list"

text \<open>\<^verbatim>\<open>file.name.split('.').pop()?.toLowerCase()\<close>.\<close>

definition fileExt :: "File \<Rightarrow> string" where
  "fileExt f = toLowerCase (last (split_on CHR ''.'' (file_name f)))"

text \<open>
  \<^verbatim>\<open>Object.keys(data[0] || {}).map(key => ({value: key, label: key}))\<close>.
\<close>

definition columns_of :: "jsobject list \<Rightarrow> columnOption list" where
  "columns_of d =
     map (\<lambda>key. \<lparr>col_value = key, col_label = key\<rparr>)
         (Object_keys (case d of [] \<Rightarrow> [] | r # _ \<Rightarrow> r))"

text \<open>
  \<^verbatim>\<open>parseFileData(file)\<close>. The two libraries are parameters: \<open>Papa_parse\<close> gives the
  rows that the delimited-text parser hands to the \<^verbatim>\<open>complete\<close> callback,
  \<open>XLSX_read\<close> gives the workbook or the exception the reader throws, and
  \<open>sheet_to_json\<close> the rows of a worksheet (of \<^verbatim>\<open>undefined\<close> when the workbook has
  no sheet of the name looked up). The promise is its outcome: \<open>Inr\<close> resolved,
  \<open>Inl\<close> rejected.
\<close>

definition parseFileData ::
  "(File \<Rightarrow> jsobject list) \<Rightarrow> (string \<Rightarrow> string + 'ws workbook) \<Rightarrow>
     ('ws option \<Rightarrow> jsobject list) \<Rightarrow> File \<Rightarrow> error + tableData" where
  "parseFileData Papa_parse XLSX_read sheet_to_json f =
     (if fileExt f = ''csv'' then
        (let d = Papa_parse f in
         Inr \<lparr>columns = columns_of d, rows = d, idColumnKey = None\<rparr>)
      else if fileExt f \<in> set [''xlsx'', ''xls''] then
        (case XLSX_read (file_content f) of
           Inl msg \<Rightarrow> Inl (WorkbookError msg)
         | Inr wb \<Rightarrow>
             (let sheetName = (case SheetNames wb of [] \<Rightarrow> ''undefined'' | n # _ \<Rightarrow> n);
                  worksheet = map_of (Sheets wb) sheetName;
                  jsonData = sheet_to_json worksheet
              in Inr \<lparr>columns = columns_of jsonData, rows = jsonData, idColumnKey = None\<rparr>))
      else Inl UnsupportedFormat)"

text \<open>
  The value \<^verbatim>\<open>JSON.parse\<close> returns, and \<^verbatim>\<open>parseGeoJsonFile(file)\<close>, which
  returns it under an unchecked cast. \<open>JSON_parse\<close> is the platform's parser:
  \<open>None\<close> when it throws.
\<close>

datatype json =
    JNull
  | JBool bool
  | JNumber real
  | JString string
  | JArray "json list"
  | JObject "(string \<times> json) list"

definition parseGeoJsonFile :: "(string \<Rightarrow> json option) \<Rightarrow> File \<Rightarrow> error + json" where
  "parseGeoJsonFile JSON_parse f =
     (case JSON_parse (file_content f) of None \<Rightarrow> Inl MalformedGeoJson | Some v \<Rightarrow> Inr v)"

text \<open>Whether a parsed value is an object with a \<^verbatim>\<open>features\<close> array.\<close>

definition has_features_array :: "json \<Rightarrow> bool" where
  "has_features_array v =
     (case v of
        JObject kvs \<Rightarrow> (case map_of kvs ''features'' of Some (JArray _) \<Rightarrow> True | _ \<Rightarrow> False)
      | _ \<Rightarrow> False)"

text \<open>
  \<^verbatim>\<open>handleTableFileUpload(file)\<close> of the page component, on the part of the page
  state it touches: the table and the notifications shown.
\<close>

record page_state =
  table :: tableData
  toasts :: "string list"

definition handleTableFileUpload ::
  "(File \<Rightarrow> jsobject list) \<Rightarrow> (string \<Rightarrow> string + 'ws workbook) \<Rightarrow>
     ('ws option \<Rightarrow> jsobject list) \<Rightarrow> page_state \<Rightarrow> File \<Rightarrow> page_state" where
  "handleTableFileUpload Papa_parse XLSX_read sheet_to_json st f =
     (case parseFileData Papa_parse XLSX_read sheet_to_json f of
        Inr d \<Rightarrow> st\<lparr>table := d\<rparr>
      | Inl e \<Rightarrow> st\<lparr>toasts := toasts st @ [''Failed to parse the file. Please check the format.'']\<rparr>)"

section \<open>Objects\<close>

lemma get_set_prop: "get (set_prop k v obj) key = (if key = k then v else get obj key)"
  by (simp add: get_def set_prop_def update_conv')

lemma get_coordinates_written:
  "get (set_prop ''lng'' b (set_prop ''lat'' a obj)) key =
     (if key = ''lng'' then b else if key = ''lat'' then a else get obj key)"
  by (simp add: get_set_prop)

lemma get_singleton: "get [(k, v)] key = (if key = k then v else JSUndefined)"
  by (simp add: get_def)

lemma map_of_rev_distinct: "distinct (map fst xs) \<Longrightarrow> map_of (rev xs) = map_of xs"
  by (rule map_of_inject_set [THEN iffD2]) (simp_all add: rev_map [symmetric])

text \<open>A spread writes its properties in order, so the last binding of a key is read.\<close>

lemma get_spread_rev:
  "get (spread src base) key =
     (case map_of (rev src) key of Some v \<Rightarrow> v | None \<Rightarrow> get base key)"
proof (induction src arbitrary: base)
  case Nil
  then show ?case by (simp add: spread_def)
next
  case (Cons x xs)
  obtain k v where x: "x = (k, v)" by (cases x)
  have "spread (x # xs) base = spread xs (set_prop k v base)"
    by (simp add: spread_def x)
  then show ?case
    using Cons.IH [of "set_prop k v base"]
    by (simp add: x get_set_prop map_add_def split: option.splits)
qed

lemma get_spread:
  assumes "wf_object src"
  shows "get (spread src base) key =
     (if key \<in> set (Object_keys src) then get src key else get base key)"
proof -
  have "map_of (rev src) = map_of src"
    using assms by (simp add: wf_object_def map_of_rev_distinct)
  with get_spread_rev [of src base key]
  have e: "get (spread src base) key =
      (case map_of src key of Some v \<Rightarrow> v | None \<Rightarrow> get base key)"
    by simp
  show ?thesis
  proof (cases "map_of src key")
    case None
    then have "key \<notin> set (Object_keys src)"
      by (simp add: Object_keys_def map_of_eq_None_iff)
    with None e show ?thesis by simp
  next
    case (Some v)
    then have "key \<in> set (Object_keys src)"
      unfolding Object_keys_def by (metis map_of_eq_None_iff option.distinct(1) set_map)
    with Some e show ?thesis by (simp add: get_def)
  qed
qed

section \<open>Linking coordinates into the table\<close>

lemma mergeCoordinates_nth:
  "i < length rs \<Longrightarrow>
   mergeCoordinates ms k rs ! i =
     (case find (\<lambda>m. strict_eq (get m k) (get (rs ! i) k)) ms of
        Some match \<Rightarrow>
          set_prop ''lng'' (get match ''lng'') (set_prop ''lat'' (get match ''lat'') (rs ! i))
      | None \<Rightarrow> rs ! i)"
  by (simp add: mergeCoordinates_def)

text \<open>
  Claim C2. For every row sequence and every list of linked points, the merged
  sequence has the length of the input and the rows in the input's order: the row at
  each position has, under every key other than \<open>lat\<close> and \<open>lng\<close>, the value the input
  row at that position has. A row whose identifier value is strictly equal to the
  identifier value of no linked point is returned as it is.
\<close>

theorem mergeCoordinates_order_preserving:
  "length (mergeCoordinates ms k rs) = length rs \<and>
   (\<forall>i < length rs. \<forall>key. key \<noteq> ''lat'' \<and> key \<noteq> ''lng'' \<longrightarrow>
      get (mergeCoordinates ms k rs ! i) key = get (rs ! i) key) \<and>
   (\<forall>i < length rs. (\<forall>m \<in> set ms. \<not> strict_eq (get m k) (get (rs ! i) k)) \<longrightarrow>
      mergeCoordinates ms k rs ! i = rs ! i)"
proof (intro conjI allI impI)
  show "length (mergeCoordinates ms k rs) = length rs"
    by (simp add: mergeCoordinates_def)
next
  fix i key
  assume "i < length rs" and "key \<noteq> ''lat'' \<and> key \<noteq> ''lng''"
  then show "get (mergeCoordinates ms k rs ! i) key = get (rs ! i) key"
    by (simp add: mergeCoordinates_nth get_coordinates_written split: option.splits)
next
  fix i
  assume i: "i < length rs" and no: "\<forall>m \<in> set ms. \<not> strict_eq (get m k) (get (rs ! i) k)"
  from no have "find (\<lambda>m. strict_eq (get m k) (get (rs ! i) k)) ms = None"
    by (simp add: find_None_iff)
  with i show "mergeCoordinates ms k rs ! i = rs ! i"
    by (simp add: mergeCoordinates_nth)
qed

theorem mergeCoordinates_order_preserving_witness:
  "length (mergeCoordinates
      [[(''id'', JSStr ''A1''), (''lat'', JSNum 52.3), (''lng'', JSNum 4.9)]] ''id''
      [[(''id'', JSStr ''A1''), (''name'', JSStr ''Foo'')],
       [(''id'', JSStr ''A2''), (''name'', JSStr ''Bar'')]]) = 2 \<and>
   get (mergeCoordinates
      [[(''id'', JSStr ''A1''), (''lat'', JSNum 52.3), (''lng'', JSNum 4.9)]] ''id''
      [[(''id'', JSStr ''A1''), (''name'', JSStr ''Foo'')],
       [(''id'', JSStr ''A2''), (''name'', JSStr ''Bar'')]] ! 0) ''name'' = JSStr ''Foo'' \<and>
   mergeCoordinates
      [[(''id'', JSStr ''A1''), (''lat'', JSNum 52.3), (''lng'', JSNum 4.9)]] ''id''
      [[(''id'', JSStr ''A1''), (''name'', JSStr ''Foo'')],
       [(''id'', JSStr ''A2''), (''name'', JSStr ''Bar'')]] ! 1 =
     [(''id'', JSStr ''A2''), (''name'', JSStr ''Bar'')]"
proof -
  let ?ms = "[[(''id'', JSStr ''A1''), (''lat'', JSNum 52.3), (''lng'', JSNum 4.9)]]"
  let ?rs = "[[(''id'', JSStr ''A1''), (''name'', JSStr ''Foo'')],
              [(''id'', JSStr ''A2''), (''name'', JSStr ''Bar'')]]"
  note t = mergeCoordinates_order_preserving [of ?ms "''id''" ?rs]
  note len = t [THEN conjunct1]
  note keys = t [THEN conjunct2, THEN conjunct1, rule_format]
  note same = t [THEN conjunct2, THEN conjunct2, rule_format]
  have n: "get (mergeCoordinates ?ms ''id'' ?rs ! 0) ''name'' = get (?rs ! 0) ''name''"
    by (rule keys) simp_all
  have u: "mergeCoordinates ?ms ''id'' ?rs ! 1 = ?rs ! 1"
    by (rule same) (simp_all add: strict_eq_def get_def)
  show ?thesis
    unfolding len n u by (simp add: get_def)
qed

text \<open>
  Claim C4, as stated (the last matching linked point wins), fails: with two linked
  points of identifier \<open>A1\<close>, the row \<open>A1\<close> takes the coordinates of the first one,
  (lat 1, lng 2), and not those of the last one, (lat 3, lng 4).
\<close>

theorem mergeCoordinates_last_match_counterexample:
  "mergeCoordinates
     [[(''pid'', JSStr ''A1''), (''lat'', JSNum 1), (''lng'', JSNum 2)],
      [(''pid'', JSStr ''A1''), (''lat'', JSNum 3), (''lng'', JSNum 4)]]
     ''pid'' [[(''pid'', JSStr ''A1'')]] =
     [[(''pid'', JSStr ''A1''), (''lat'', JSNum 1), (''lng'', JSNum 2)]] \<and>
   get (mergeCoordinates
     [[(''pid'', JSStr ''A1''), (''lat'', JSNum 1), (''lng'', JSNum 2)],
      [(''pid'', JSStr ''A1''), (''lat'', JSNum 3), (''lng'', JSNum 4)]]
     ''pid'' [[(''pid'', JSStr ''A1'')]] ! 0) ''lat'' \<noteq> JSNum 3"
  by (simp add: mergeCoordinates_def strict_eq_def get_def set_prop_def)

text \<open>
  Claim C4, amended: when linked points have duplicate identifier values, the first
  matching linked point wins. A row whose identifier value is strictly equal to that of
  the linked point at position \<open>j\<close>, and of no linked point before \<open>j\<close>, carries the
  \<open>lat\<close> and \<open>lng\<close> of the linked point at \<open>j\<close>, whatever follows it in the list.
\<close>

theorem mergeCoordinates_first_match_wins:
  assumes "i < length rs" and "j < length ms"
    and "strict_eq (get (ms ! j) k) (get (rs ! i) k)"
    and "\<forall>j' < j. \<not> strict_eq (get (ms ! j') k) (get (rs ! i) k)"
  shows "get (mergeCoordinates ms k rs ! i) ''lat'' = get (ms ! j) ''lat'' \<and>
         get (mergeCoordinates ms k rs ! i) ''lng'' = get (ms ! j) ''lng''"
proof -
  have "find (\<lambda>m. strict_eq (get m k) (get (rs ! i) k)) ms = Some (ms ! j)"
    using assms(2-4) by (auto simp: find_Some_iff)
  with assms(1) show ?thesis
    by (simp add: mergeCoordinates_nth get_coordinates_written)
qed

theorem mergeCoordinates_first_match_wins_witness:
  "get (mergeCoordinates
     [[(''pid'', JSStr ''B7''), (''lat'', JSNum 9), (''lng'', JSNum 9)],
      [(''pid'', JSStr ''A1''), (''lat'', JSNum 1), (''lng'', JSNum 2)],
      [(''pid'', JSStr ''A1''), (''lat'', JSNum 3), (''lng'', JSNum 4)]]
     ''pid'' [[(''pid'', JSStr ''A1'')]] ! 0) ''lat'' = JSNum 1 \<and>
   get (mergeCoordinates
     [[(''pid'', JSStr ''B7''), (''lat'', JSNum 9), (''lng'', JSNum 9)],
      [(''pid'', JSStr ''A1''), (''lat'', JSNum 1), (''lng'', JSNum 2)],
      [(''pid'', JSStr ''A1''), (''lat'', JSNum 3), (''lng'', JSNum 4)]]
     ''pid'' [[(''pid'', JSStr ''A1'')]] ! 0) ''lng'' = JSNum 2"
proof -
  let ?ms = "[[(''pid'', JSStr ''B7''), (''lat'', JSNum 9), (''lng'', JSNum 9)],
              [(''pid'', JSStr ''A1''), (''lat'', JSNum 1), (''lng'', JSNum 2)],
              [(''pid'', JSStr ''A1''), (''lat'', JSNum 3), (''lng'', JSNum 4)]]"
  let ?rs = "[[(''pid'', JSStr ''A1'')]]"
  have h1: "(0::nat) < length ?rs" and h2: "(1::nat) < length ?ms"
    by simp_all
  have h3: "strict_eq (get (?ms ! 1) ''pid'') (get (?rs ! 0) ''pid'')"
    by (simp add: strict_eq_def get_def)
  have h4: "\<forall>j' < (1::nat). \<not> strict_eq (get (?ms ! j') ''pid'') (get (?rs ! 0) ''pid'')"
    by (simp add: strict_eq_def get_def)
  from mergeCoordinates_first_match_wins [OF h1 h2 h3 h4]
  show ?thesis by (simp add: get_def)
qed

section \<open>Manual placement\<close>

text \<open>
  Claim C3, as stated (exactly one row, the first match, is replaced and later rows with
  the same identifier are untouched), fails: with two rows of identifier \<open>A2\<close>, both take
  the new coordinates.
\<close>

theorem updateMonopileCoordinates_first_only_counterexample:
  "updateMonopileCoordinates
     [[(''id'', JSStr ''A2''), (''name'', JSStr ''Bar'')],
      [(''id'', JSStr ''A2''), (''name'', JSStr ''Baz'')]]
     ''id'' (JSStr ''A2'') (JSNum 53) (JSNum 5) =
     [[(''id'', JSStr ''A2''), (''name'', JSStr ''Bar''), (''lat'', JSNum 53), (''lng'', JSNum 5)],
      [(''id'', JSStr ''A2''), (''name'', JSStr ''Baz''), (''lat'', JSNum 53), (''lng'', JSNum 5)]] \<and>
   updateMonopileCoordinates
     [[(''id'', JSStr ''A2''), (''name'', JSStr ''Bar'')],
      [(''id'', JSStr ''A2''), (''name'', JSStr ''Baz'')]]
     ''id'' (JSStr ''A2'') (JSNum 53) (JSNum 5) ! 1 \<noteq>
     [(''id'', JSStr ''A2''), (''name'', JSStr ''Baz'')]"
  by (simp add: updateMonopileCoordinates_def strict_eq_def get_def set_prop_def)

text \<open>
  Claim C3, amended: for every row list, identifier column key, identifier value and
  pair of coordinates, the result has the rows of the input in the input's order, where
  every row whose identifier-column value is strictly equal to the given identifier
  value (each of them when there are duplicates, none when no row matches) has the new
  \<open>lat\<close> and \<open>lng\<close> and its other fields as before, and every other row is returned
  untouched.
\<close>

theorem updateMonopileCoordinates_all_matches:
  "length (updateMonopileCoordinates rs k ident lat lng) = length rs \<and>
   (\<forall>i < length rs.
      if strict_eq (get (rs ! i) k) ident
      then get (updateMonopileCoordinates rs k ident lat lng ! i) ''lat'' = lat \<and>
           get (updateMonopileCoordinates rs k ident lat lng ! i) ''lng'' = lng \<and>
           (\<forall>key. key \<noteq> ''lat'' \<and> key \<noteq> ''lng'' \<longrightarrow>
              get (updateMonopileCoordinates rs k ident lat lng ! i) key = get (rs ! i) key)
      else updateMonopileCoordinates rs k ident lat lng ! i = rs ! i)"
  by (simp add: updateMonopileCoordinates_def get_coordinates_written)

theorem updateMonopileCoordinates_all_matches_witness:
  "get (updateMonopileCoordinates
     [[(''id'', JSStr ''A1''), (''name'', JSStr ''Foo'')],
      [(''id'', JSStr ''A2''), (''name'', JSStr ''Bar'')]]
     ''id'' (JSStr ''A2'') (JSNum 53) (JSNum 5) ! 1) ''lat'' = JSNum 53 \<and>
   get (updateMonopileCoordinates
     [[(''id'', JSStr ''A1''), (''name'', JSStr ''Foo'')],
      [(''id'', JSStr ''A2''), (''name'', JSStr ''Bar'')]]
     ''id'' (JSStr ''A2'') (JSNum 53) (JSNum 5) ! 1) ''lng'' = JSNum 5 \<and>
   get (updateMonopileCoordinates
     [[(''id'', JSStr ''A1''), (''name'', JSStr ''Foo'')],
      [(''id'', JSStr ''A2''), (''name'', JSStr ''Bar'')]]
     ''id'' (JSStr ''A2'') (JSNum 53) (JSNum 5) ! 1) ''name'' = JSStr ''Bar'' \<and>
   updateMonopileCoordinates
     [[(''id'', JSStr ''A1''), (''name'', JSStr ''Foo'')],
      [(''id'', JSStr ''A2''), (''name'', JSStr ''Bar'')]]
     ''id'' (JSStr ''A2'') (JSNum 53) (JSNum 5) ! 0 =
     [(''id'', JSStr ''A1''), (''name'', JSStr ''Foo'')]"
proof -
  let ?rs = "[[(''id'', JSStr ''A1''), (''name'', JSStr ''Foo'')],
              [(''id'', JSStr ''A2''), (''name'', JSStr ''Bar'')]]"
  let ?out = "updateMonopileCoordinates ?rs ''id'' (JSStr ''A2'') (JSNum 53) (JSNum 5)"
  note t = updateMonopileCoordinates_all_matches
             [of ?rs "''id''" "JSStr ''A2''" "JSNum 53" "JSNum 5"]
  note a = t [THEN conjunct2, rule_format]
  have m1: "strict_eq (get (?rs ! 1) ''id'') (JSStr ''A2'')"
    and m0: "\<not> strict_eq (get (?rs ! 0) ''id'') (JSStr ''A2'')"
    by (simp_all add: strict_eq_def get_def)
  have "(1::nat) < length ?rs" by simp
  from a [OF this] have r1: "get (?out ! 1) ''lat'' = JSNum 53 \<and> get (?out ! 1) ''lng'' = JSNum 5 \<and>
      (\<forall>key. key \<noteq> ''lat'' \<and> key \<noteq> ''lng'' \<longrightarrow> get (?out ! 1) key = get (?rs ! 1) key)"
    unfolding if_P [OF m1] .
  note r1lat = r1 [THEN conjunct1]
  note r1lng = r1 [THEN conjunct2, THEN conjunct1]
  note r1key = r1 [THEN conjunct2, THEN conjunct2, rule_format]
  have r1n: "get (?out ! 1) ''name'' = get (?rs ! 1) ''name''"
    by (rule r1key) simp
  have "(0::nat) < length ?rs" by simp
  from a [OF this] have r0: "?out ! 0 = ?rs ! 0"
    unfolding if_not_P [OF m0] .
  show ?thesis
    unfolding r1lat r1lng r1n r0 by (simp add: get_def)
qed

section \<open>Extracting linked points from GeoJSON\<close>

lemma map_result_Inr:
  assumes "\<forall>x \<in> set xs. \<exists>y. f x = Inr y"
  shows "\<exists>ys. map_result f xs = Inr ys \<and> length ys = length xs \<and>
           (\<forall>i < length xs. f (xs ! i) = Inr (ys ! i))"
  using assms
proof (induction xs)
  case Nil
  then show ?case by simp
next
  case (Cons x xs)
  then obtain y where y: "f x = Inr y" by auto
  from Cons obtain ys where ys: "map_result f xs = Inr ys" "length ys = length xs"
    "\<forall>i < length xs. f (xs ! i) = Inr (ys ! i)" by auto
  have "\<forall>i < length (x # xs). f ((x # xs) ! i) = Inr ((y # ys) ! i)"
    using y ys(3) by (auto simp: nth_Cons split: nat.splits)
  with y ys(1,2) show ?case by simp
qed

lemma map_result_Inl:
  assumes "\<forall>x \<in> set xs. f x = Inl e \<or> (\<exists>y. f x = Inr y)" and "\<exists>x \<in> set xs. f x = Inl e"
  shows "map_result f xs = Inl e"
  using assms
proof (induction xs)
  case Nil
  then show ?case by simp
next
  case (Cons x xs)
  show ?case
  proof (cases "f x")
    case (Inl a)
    with Cons.prems(1) show ?thesis by auto
  next
    case (Inr y)
    with Cons.prems have "\<exists>x \<in> set xs. f x = Inl e" by auto
    with Cons have "map_result f xs = Inl e" by auto
    with Inr show ?thesis by simp
  qed
qed

lemma extract_monopile_ok:
  assumes "is_point_feature f" and "2 \<le> length (feature_coordinates f)"
  shows "extract_monopile proto k f =
     Inr (set_prop ''lng'' (feature_coordinates f ! 0)
           (set_prop ''lat'' (feature_coordinates f ! 1)
             (spread (properties_or_empty f)
                [(''id'', js_or (get_inherited proto (properties_or_empty f) k)
                            (JSStr ''unknown''))])))"
  using assms
  by (auto simp: extract_monopile_def is_point_feature_def feature_coordinates_def Let_def
      split: option.splits)

lemma extract_monopile_bad:
  assumes "is_point_feature f" and "length (feature_coordinates f) < 2"
  shows "extract_monopile proto k f = Inl InvalidGeometry"
  using assms
  by (auto simp: extract_monopile_def is_point_feature_def feature_coordinates_def Let_def
      split: option.splits)

lemma extract_monopile_cases:
  assumes "is_point_feature f"
  shows "extract_monopile proto k f = Inl InvalidGeometry \<or>
         (\<exists>y. extract_monopile proto k f = Inr y)"
  using extract_monopile_ok [OF assms, of proto k] extract_monopile_bad [OF assms, of proto k]
  by (cases "2 \<le> length (feature_coordinates f)") auto

text \<open>
  Claim C6, as stated (\<open>id\<close> is \<open>'unknown'\<close> exactly when the property is null or
  undefined), fails: the code writes \<^verbatim>\<open>properties[idColumnKey] || 'unknown'\<close>, so a
  Point feature whose identifier property is the number 0 gives a record with
  \<open>id = 'unknown'\<close>.
\<close>

theorem extractMonopilesFromGeoJson_zero_id_counterexample:
  "extractMonopilesFromGeoJson Object_prototype
     \<lparr>ctype = ''FeatureCollection'',
      features = [\<lparr>ftype = ''Feature'',
                   geometry = Some \<lparr>gtype = ''Point'', coordinates = Some [JSNum 4.9, JSNum 52.3]\<rparr>,
                   properties = Some [(''pid'', JSNum 0)]\<rparr>]\<rparr> ''pid'' =
   Inr [[(''id'', JSStr ''unknown''), (''pid'', JSNum 0), (''lat'', JSNum 52.3), (''lng'', JSNum 4.9)]]"
  by (simp add: extractMonopilesFromGeoJson_def is_point_feature_def extract_monopile_def
      properties_or_empty_def spread_def set_prop_def js_or_def get_inherited_def)

text \<open>
  Claim C6, amended. Let the properties of every feature be well-formed objects, and
  let \<open>proto\<close> be what plain objects inherit. When every Point feature has at least two
  coordinate components, the extraction returns exactly one record per Point feature,
  in feature order (features of another geometry, or of none, are skipped), and the
  record of a feature is
  \<^verbatim>\<open>{id: properties[key] || 'unknown', ...properties, lat: coordinates[1], lng: coordinates[0]}\<close>.
  In terms of the record's own properties: its \<open>lat\<close> is the second coordinate component
  and its \<open>lng\<close> the first; under any other key it has the feature's own property of
  that key when there is one; otherwise \<open>id\<close> is what \<^verbatim>\<open>properties[key]\<close> reads (the
  own property, or else the inherited one) when that is truthy, and \<open>'unknown'\<close> when
  it is falsy (undefined, null, false, 0, NaN or the empty string); the record has no
  other own property. When some Point feature has fewer than two coordinate components,
  the extraction fails with the invalid-geometry error.
\<close>

theorem extractMonopilesFromGeoJson_records:
  assumes wf: "\<forall>f \<in> set (features g). wf_object (properties_or_empty f)"
  shows
   "((\<forall>f \<in> set (filter is_point_feature (features g)). 2 \<le> length (feature_coordinates f)) \<longrightarrow>
      (\<exists>recs. extractMonopilesFromGeoJson proto g k = Inr recs \<and>
         length recs = length (filter is_point_feature (features g)) \<and>
         (\<forall>i < length recs.
            get (recs ! i) ''lat'' = feature_coordinates (filter is_point_feature (features g) ! i) ! 1 \<and>
            get (recs ! i) ''lng'' = feature_coordinates (filter is_point_feature (features g) ! i) ! 0 \<and>
            (\<forall>key. key \<noteq> ''lat'' \<and> key \<noteq> ''lng'' \<longrightarrow>
               get (recs ! i) key =
                 (let props = properties_or_empty (filter is_point_feature (features g) ! i) in
                  if key \<in> set (Object_keys props) then get props key
                  else if key = ''id'' then
                    (if truthy (get_inherited proto props k) then get_inherited proto props k
                     else JSStr ''unknown'')
                  else JSUndefined))))) \<and>
    ((\<exists>f \<in> set (filter is_point_feature (features g)). length (feature_coordinates f) < 2) \<longrightarrow>
       extractMonopilesFromGeoJson proto g k = Inl InvalidGeometry)"
proof (intro conjI impI)
  let ?pts = "filter is_point_feature (features g)"
  assume ok: "\<forall>f \<in> set ?pts. 2 \<le> length (feature_coordinates f)"
  then have "\<forall>f \<in> set ?pts. \<exists>y. extract_monopile proto k f = Inr y"
    using extract_monopile_ok by auto
  from map_result_Inr [OF this] obtain recs where
    recs: "map_result (extract_monopile proto k) ?pts = Inr recs" "length recs = length ?pts"
      "\<forall>i < length ?pts. extract_monopile proto k (?pts ! i) = Inr (recs ! i)"
    by blast
  have shape: "get (recs ! i) ''lat'' = feature_coordinates (?pts ! i) ! 1 \<and>
        get (recs ! i) ''lng'' = feature_coordinates (?pts ! i) ! 0 \<and>
        (\<forall>key. key \<noteq> ''lat'' \<and> key \<noteq> ''lng'' \<longrightarrow>
           get (recs ! i) key =
             (let props = properties_or_empty (?pts ! i) in
              if key \<in> set (Object_keys props) then get props key
              else if key = ''id'' then
                (if truthy (get_inherited proto props k) then get_inherited proto props k
                 else JSStr ''unknown'')
              else JSUndefined))" if i: "i < length recs" for i
  proof -
    from i recs(2) have "i < length ?pts" by simp
    then have mem: "?pts ! i \<in> set ?pts" by (rule nth_mem)
    then have pt: "is_point_feature (?pts ! i)" and inf: "?pts ! i \<in> set (features g)"
      unfolding set_filter by blast+
    from ok mem have two: "2 \<le> length (feature_coordinates (?pts ! i))" by blast
    from wf inf have w: "wf_object (properties_or_empty (?pts ! i))" by blast
    have "extract_monopile proto k (?pts ! i) = Inr (recs ! i)"
      using recs(3) i recs(2) by simp
    with extract_monopile_ok [OF pt two, of proto k]
    have r: "recs ! i = set_prop ''lng'' (feature_coordinates (?pts ! i) ! 0)
           (set_prop ''lat'' (feature_coordinates (?pts ! i) ! 1)
             (spread (properties_or_empty (?pts ! i))
                [(''id'', js_or (get_inherited proto (properties_or_empty (?pts ! i)) k)
                            (JSStr ''unknown''))]))"
      by simp
    show ?thesis
      unfolding r get_coordinates_written
      by (simp add: get_spread [OF w] Let_def js_or_def get_singleton)
  qed
  show "\<exists>recs. extractMonopilesFromGeoJson proto g k = Inr recs \<and>
         length recs = length ?pts \<and>
         (\<forall>i < length recs.
            get (recs ! i) ''lat'' = feature_coordinates (?pts ! i) ! 1 \<and>
            get (recs ! i) ''lng'' = feature_coordinates (?pts ! i) ! 0 \<and>
            (\<forall>key. key \<noteq> ''lat'' \<and> key \<noteq> ''lng'' \<longrightarrow>
               get (recs ! i) key =
                 (let props = properties_or_empty (?pts ! i) in
                  if key \<in> set (Object_keys props) then get props key
                  else if key = ''id'' then
                    (if truthy (get_inherited proto props k) then get_inherited proto props k
                     else JSStr ''unknown'')
                  else JSUndefined)))"
    using recs(1,2) shape by (auto simp: extractMonopilesFromGeoJson_def)
next
  let ?pts = "filter is_point_feature (features g)"
  assume bad: "\<exists>f \<in> set ?pts. length (feature_coordinates f) < 2"
  have "\<forall>f \<in> set ?pts. extract_monopile proto k f = Inl InvalidGeometry \<or>
      (\<exists>y. extract_monopile proto k f = Inr y)"
    using extract_monopile_cases by auto
  moreover have "\<exists>f \<in> set ?pts. extract_monopile proto k f = Inl InvalidGeometry"
    using bad extract_monopile_bad by auto
  ultimately show "extractMonopilesFromGeoJson proto g k = Inl InvalidGeometry"
    unfolding extractMonopilesFromGeoJson_def by (rule map_result_Inl)
qed

theorem extractMonopilesFromGeoJson_records_witness:
  "(\<exists>recs.
      extractMonopilesFromGeoJson Object_prototype
        \<lparr>ctype = ''FeatureCollection'',
         features =
           [\<lparr>ftype = ''Feature'',
             geometry = Some \<lparr>gtype = ''Point'', coordinates = Some [JSNum 4.9, JSNum 52.3]\<rparr>,
             properties = Some [(''pid'', JSStr ''A1'')]\<rparr>,
            \<lparr>ftype = ''Feature'',
             geometry = Some \<lparr>gtype = ''Polygon'', coordinates = Some [JSRef 100]\<rparr>,
             properties = None\<rparr>]\<rparr> ''pid'' = Inr recs \<and>
      length recs = 1 \<and>
      get (recs ! 0) ''lat'' = JSNum 52.3 \<and>
      get (recs ! 0) ''lng'' = JSNum 4.9 \<and>
      get (recs ! 0) ''pid'' = JSStr ''A1'' \<and>
      get (recs ! 0) ''id'' = JSStr ''A1'') \<and>
   (\<exists>recs.
      extractMonopilesFromGeoJson Object_prototype
        \<lparr>ctype = ''FeatureCollection'',
         features =
           [\<lparr>ftype = ''Feature'',
             geometry = Some \<lparr>gtype = ''Point'', coordinates = Some [JSNum 4.9, JSNum 52.3]\<rparr>,
             properties = Some [(''pid'', JSStr ''A1'')]\<rparr>,
            \<lparr>ftype = ''Feature'',
             geometry = Some \<lparr>gtype = ''Polygon'', coordinates = Some [JSRef 100]\<rparr>,
             properties = None\<rparr>]\<rparr> ''constructor'' = Inr recs \<and>
      length recs = 1 \<and>
      get (recs ! 0) ''id'' = JSRef 0) \<and>
   (\<exists>recs.
      extractMonopilesFromGeoJson Object_prototype
        \<lparr>ctype = ''FeatureCollection'',
         features =
           [\<lparr>ftype = ''Feature'',
             geometry = Some \<lparr>gtype = ''Point'', coordinates = Some [JSNum 4.9, JSNum 52.3]\<rparr>,
             properties = Some [(''pid'', JSStr ''A1'')]\<rparr>,
            \<lparr>ftype = ''Feature'',
             geometry = Some \<lparr>gtype = ''Polygon'', coordinates = Some [JSRef 100]\<rparr>,
             properties = None\<rparr>]\<rparr> ''name'' = Inr recs \<and>
      length recs = 1 \<and>
      get (recs ! 0) ''id'' = JSStr ''unknown'') \<and>
   extractMonopilesFromGeoJson Object_prototype
     \<lparr>ctype = ''FeatureCollection'',
      features =
        [\<lparr>ftype = ''Feature'',
          geometry = Some \<lparr>gtype = ''Point'', coordinates = Some [JSNum 4.9]\<rparr>,
          properties = Some [(''pid'', JSStr ''A1'')]\<rparr>]\<rparr> ''pid'' = Inl InvalidGeometry"
proof -
  let ?pf = "\<lparr>ftype = ''Feature'',
             geometry = Some \<lparr>gtype = ''Point'', coordinates = Some [JSNum 4.9, JSNum 52.3]\<rparr>,
             properties = Some [(''pid'', JSStr ''A1'')]\<rparr>"
  let ?g = "\<lparr>ctype = ''FeatureCollection'',
         features =
           [?pf,
            \<lparr>ftype = ''Feature'',
             geometry = Some \<lparr>gtype = ''Polygon'', coordinates = Some [JSRef 100]\<rparr>,
             properties = None\<rparr>]\<rparr>"
  let ?bf = "\<lparr>ftype = ''Feature'',
          geometry = Some \<lparr>gtype = ''Point'', coordinates = Some [JSNum 4.9]\<rparr>,
          properties = Some [(''pid'', JSStr ''A1'')]\<rparr>"
  let ?b = "\<lparr>ctype = ''FeatureCollection'', features = [?bf]\<rparr>"
  have wf: "\<forall>f \<in> set (features ?g). wf_object (properties_or_empty f)"
    by (simp add: wf_object_def properties_or_empty_def)
  have pts: "filter is_point_feature (features ?g) = [?pf]"
    by (simp add: is_point_feature_def)
  have ok: "\<forall>f \<in> set (filter is_point_feature (features ?g)). 2 \<le> length (feature_coordinates f)"
    unfolding pts by (simp add: feature_coordinates_def)
  have not_coord: "''pid'' \<noteq> ''lat'' \<and> ''pid'' \<noteq> ''lng''" "''id'' \<noteq> ''lat'' \<and> ''id'' \<noteq> ''lng''"
    by simp_all
  have first: "\<exists>recs. extractMonopilesFromGeoJson Object_prototype ?g ''pid'' = Inr recs \<and>
      length recs = 1 \<and>
      get (recs ! 0) ''lat'' = JSNum 52.3 \<and> get (recs ! 0) ''lng'' = JSNum 4.9 \<and>
      get (recs ! 0) ''pid'' = JSStr ''A1'' \<and> get (recs ! 0) ''id'' = JSStr ''A1''"
  proof -
    from extractMonopilesFromGeoJson_records
           [OF wf, of Object_prototype "''pid''", THEN conjunct1, THEN mp, OF ok]
    obtain recs where
      r: "extractMonopilesFromGeoJson Object_prototype ?g ''pid'' = Inr recs \<and>
        length recs = length (filter is_point_feature (features ?g)) \<and>
        (\<forall>i < length recs.
            get (recs ! i) ''lat'' = feature_coordinates (filter is_point_feature (features ?g) ! i) ! 1 \<and>
            get (recs ! i) ''lng'' = feature_coordinates (filter is_point_feature (features ?g) ! i) ! 0 \<and>
            (\<forall>key. key \<noteq> ''lat'' \<and> key \<noteq> ''lng'' \<longrightarrow>
               get (recs ! i) key =
                 (let props = properties_or_empty (filter is_point_feature (features ?g) ! i) in
                  if key \<in> set (Object_keys props) then get props key
                  else if key = ''id'' then
                    (if truthy (get_inherited Object_prototype props ''pid'')
                     then get_inherited Object_prototype props ''pid''
                     else JSStr ''unknown'')
                  else JSUndefined)))"
      by (rule exE)
    note r1 = r [THEN conjunct1]
    from r [THEN conjunct2, THEN conjunct1] have len: "length recs = 1"
      unfolding pts by simp
    then have "0 < length recs" by simp
    note r3 = r [THEN conjunct2, THEN conjunct2, rule_format, OF this, unfolded pts nth_Cons_0]
    from r3 [THEN conjunct1] have lat: "get (recs ! 0) ''lat'' = JSNum 52.3"
      by (simp add: feature_coordinates_def)
    from r3 [THEN conjunct2, THEN conjunct1] have lng: "get (recs ! 0) ''lng'' = JSNum 4.9"
      by (simp add: feature_coordinates_def)
    note keys = r3 [THEN conjunct2, THEN conjunct2, rule_format]
    from keys [OF not_coord(1)] have pid: "get (recs ! 0) ''pid'' = JSStr ''A1''"
      by (simp add: properties_or_empty_def Object_keys_def get_def)
    from keys [OF not_coord(2)] have ident: "get (recs ! 0) ''id'' = JSStr ''A1''"
      by (simp add: properties_or_empty_def Object_keys_def get_inherited_def)
    from r1 len lat lng pid ident show ?thesis
      by (intro exI [of _ recs] conjI)
  qed
  have inherited: "\<exists>recs. extractMonopilesFromGeoJson Object_prototype ?g ''constructor'' = Inr recs \<and>
      length recs = 1 \<and> get (recs ! 0) ''id'' = JSRef 0"
  proof -
    from extractMonopilesFromGeoJson_records
           [OF wf, of Object_prototype "''constructor''", THEN conjunct1, THEN mp, OF ok]
    obtain recs where
      r: "extractMonopilesFromGeoJson Object_prototype ?g ''constructor'' = Inr recs \<and>
        length recs = length (filter is_point_feature (features ?g)) \<and>
        (\<forall>i < length recs.
            get (recs ! i) ''lat'' = feature_coordinates (filter is_point_feature (features ?g) ! i) ! 1 \<and>
            get (recs ! i) ''lng'' = feature_coordinates (filter is_point_feature (features ?g) ! i) ! 0 \<and>
            (\<forall>key. key \<noteq> ''lat'' \<and> key \<noteq> ''lng'' \<longrightarrow>
               get (recs ! i) key =
                 (let props = properties_or_empty (filter is_point_feature (features ?g) ! i) in
                  if key \<in> set (Object_keys props) then get props key
                  else if key = ''id'' then
                    (if truthy (get_inherited Object_prototype props ''constructor'')
                     then get_inherited Object_prototype props ''constructor''
                     else JSStr ''unknown'')
                  else JSUndefined)))"
      by (rule exE)
    note r1 = r [THEN conjunct1]
    from r [THEN conjunct2, THEN conjunct1] have len: "length recs = 1"
      unfolding pts by simp
    then have "0 < length recs" by simp
    note r3 = r [THEN conjunct2, THEN conjunct2, rule_format, OF this, unfolded pts nth_Cons_0]
    note keys = r3 [THEN conjunct2, THEN conjunct2, rule_format]
    from keys [OF not_coord(2)] have ident: "get (recs ! 0) ''id'' = JSRef 0"
      by (simp add: properties_or_empty_def Object_keys_def get_inherited_def
          Object_prototype_def get_def)
    from r1 len ident show ?thesis
      by (intro exI [of _ recs] conjI)
  qed
  have missing: "\<exists>recs. extractMonopilesFromGeoJson Object_prototype ?g ''name'' = Inr recs \<and>
      length recs = 1 \<and> get (recs ! 0) ''id'' = JSStr ''unknown''"
  proof -
    from extractMonopilesFromGeoJson_records
           [OF wf, of Object_prototype "''name''", THEN conjunct1, THEN mp, OF ok]
    obtain recs where
      r: "extractMonopilesFromGeoJson Object_prototype ?g ''name'' = Inr recs \<and>
        length recs = length (filter is_point_feature (features ?g)) \<and>
        (\<forall>i < length recs.
            get (recs ! i) ''lat'' = feature_coordinates (filter is_point_feature (features ?g) ! i) ! 1 \<and>
            get (recs ! i) ''lng'' = feature_coordinates (filter is_point_feature (features ?g) ! i) ! 0 \<and>
            (\<forall>key. key \<noteq> ''lat'' \<and> key \<noteq> ''lng'' \<longrightarrow>
               get (recs ! i) key =
                 (let props = properties_or_empty (filter is_point_feature (features ?g) ! i) in
                  if key \<in> set (Object_keys props) then get props key
                  else if key = ''id'' then
                    (if truthy (get_inherited Object_prototype props ''name'')
                     then get_inherited Object_prototype props ''name''
                     else JSStr ''unknown'')
                  else JSUndefined)))"
      by (rule exE)
    note r1 = r [THEN conjunct1]
    from r [THEN conjunct2, THEN conjunct1] have len: "length recs = 1"
      unfolding pts by simp
    then have "0 < length recs" by simp
    note r3 = r [THEN conjunct2, THEN conjunct2, rule_format, OF this, unfolded pts nth_Cons_0]
    note keys = r3 [THEN conjunct2, THEN conjunct2, rule_format]
    from keys [OF not_coord(2)] have ident: "get (recs ! 0) ''id'' = JSStr ''unknown''"
      by (simp add: properties_or_empty_def Object_keys_def get_inherited_def
          Object_prototype_def get_def)
    from r1 len ident show ?thesis
      by (intro exI [of _ recs] conjI)
  qed
  have wfb: "\<forall>f \<in> set (features ?b). wf_object (properties_or_empty f)"
    by (simp add: wf_object_def properties_or_empty_def)
  have bad: "\<exists>f \<in> set (filter is_point_feature (features ?b)). length (feature_coordinates f) < 2"
    by (simp add: is_point_feature_def feature_coordinates_def)
  note failing = extractMonopilesFromGeoJson_records
      [OF wfb, of Object_prototype "''pid''", THEN conjunct2, THEN mp, OF bad]
  from first inherited missing failing show ?thesis
    by (intro conjI)
qed

section \<open>Loading the point layer\<close>

lemma has_coordinates_iff:
  "has_coordinates m \<longleftrightarrow> truthy (get m ''lat'') \<and> truthy (get m ''lng'')"
  by (auto simp: has_coordinates_def js_and_def)

text \<open>
  Claim C9 holds of the intent written in the code (\<^verbatim>\<open>// Only include monopiles with
  coordinates\<close>) and fails on the code: the test \<^verbatim>\<open>m.lat && m.lng\<close> is a truthiness
  test, so a record whose latitude is the number 0 is left out of the features, by
  \<open>createGeoJsonFromMonopiles\<close> and in the source that \<open>addMonopiles\<close> installs. The
  same test lets a record with non-numeric, non-empty strings as coordinates in.
\<close>

theorem monopile_at_latitude_zero_left_out:
  "createGeoJsonFromMonopiles
     [[(''id'', JSStr ''A1''), (''lat'', JSNum 0), (''lng'', JSNum 4.9)]] ''id'' =
     \<lparr>ctype = ''FeatureCollection'', features = []\<rparr> \<and>
   map_option (\<lambda>m. getSource m ''monopile-data'')
     (case addMonopiles (\<lambda>coords c. c)
             \<lparr>map_camera = \<lparr>center = (0, 20), zoom = 2\<rparr>, sources = [], layers = []\<rparr>
             [[(''id'', JSStr ''A1''), (''lat'', JSNum 0), (''lng'', JSNum 4.9)]] ''id''
             \<lparr>color = ''#f97316'', style_size = 6, borderColor = ''#ffffff'', borderWidth = 1\<rparr>
      of Inl e \<Rightarrow> None | Inr m \<Rightarrow> Some m) =
     Some (Some \<lparr>ctype = ''FeatureCollection'', features = []\<rparr>) \<and>
   features (createGeoJsonFromMonopiles
     [[(''id'', JSStr ''A1''), (''lat'', JSStr ''north''), (''lng'', JSStr ''east'')]] ''id'') =
     [\<lparr>ftype = ''Feature'',
       geometry = Some \<lparr>gtype = ''Point'', coordinates = Some [JSStr ''east'', JSStr ''north'']\<rparr>,
       properties = Some [(''id'', JSStr ''A1''), (''lat'', JSStr ''north''), (''lng'', JSStr ''east'')]\<rparr>]"
  by (simp add: createGeoJsonFromMonopiles_def monopile_features_def has_coordinates_def
      monopile_feature_def js_and_def get_def addMonopiles_def getSource_def addSource_def
      addLayer_def getLayer_def spread_def set_prop_def)

section \<open>Parsing uploaded files\<close>

lemma split_on_not_Nil: "split_on sep s \<noteq> []"
  by (induction s) (auto split: list.splits)

lemma split_on_no_sep: "sep \<notin> set s \<Longrightarrow> split_on sep s = [s]"
  by (induction s) auto

lemma split_on_two_segments: "tl (split_on sep (pre @ sep # seg)) \<noteq> []"
  by (induction pre) (auto simp: split_on_not_Nil split: list.splits)

lemma last_split_on:
  "sep \<notin> set seg \<Longrightarrow> last (split_on sep (pre @ sep # seg)) = seg"
proof (induction pre)
  case Nil
  then show ?case by (simp add: split_on_no_sep)
next
  case (Cons c pre)
  then have IH: "last (split_on sep (pre @ sep # seg)) = seg" by simp
  show ?case
  proof (cases "split_on sep (pre @ sep # seg)")
    case Nil
    then show ?thesis using split_on_not_Nil [of sep "pre @ sep # seg"] by simp
  next
    case (Cons x xs)
    with split_on_two_segments [of sep pre seg] have "xs \<noteq> []" by simp
    with Cons IH show ?thesis by simp
  qed
qed

lemma fileExt_after_last_dot:
  "file_name f = pre @ CHR ''.'' # seg \<Longrightarrow> CHR ''.'' \<notin> set seg \<Longrightarrow> fileExt f = toLowerCase seg"
  by (simp add: fileExt_def last_split_on)

text \<open>
  Claim C7, as stated (each of the three extensions produces a table), fails: for a
  file of extension \<open>xlsx\<close> on which the workbook reader throws, \<open>parseFileData\<close>
  fails with the reader's exception and produces no table. Also, a file named \<open>csv\<close>,
  whose name has no dot and so no segment after a last dot, is parsed as delimited
  text.
\<close>

theorem parseFileData_workbook_failure_counterexample:
  "fileExt \<lparr>file_name = ''piles.xlsx'', file_content = ''x''\<rparr> = ''xlsx'' \<and>
   parseFileData (\<lambda>f. []) (\<lambda>c. Inl ''bad zip'' :: string + unit workbook) (\<lambda>w. [])
     \<lparr>file_name = ''piles.xlsx'', file_content = ''x''\<rparr> = Inl (WorkbookError ''bad zip'') \<and>
   parseFileData (\<lambda>f. []) (\<lambda>c. Inl ''bad zip'' :: string + unit workbook) (\<lambda>w. [])
     \<lparr>file_name = ''csv'', file_content = ''x''\<rparr> =
     Inr \<lparr>columns = [], rows = [], idColumnKey = None\<rparr>"
proof -
  have e1: "fileExt \<lparr>file_name = ''piles.xlsx'', file_content = ''x''\<rparr> = ''xlsx''"
    and e2: "fileExt \<lparr>file_name = ''csv'', file_content = ''x''\<rparr> = ''csv''"
    by code_simp+
  show ?thesis
    by (simp add: parseFileData_def e1 e2 columns_of_def Object_keys_def)
qed

text \<open>
  Claim C7, amended. \<open>parseFileData\<close> fails with the unsupported-format error exactly
  when the extension of the file is none of \<open>csv\<close>, \<open>xlsx\<close>, \<open>xls\<close>, where the
  extension is the lower-cased last dot-separated segment of the name: the segment
  after the last dot, and the whole name when it has no dot. For each of the three
  extensions it does not raise that error, and a table it produces has no identifier
  column selected. For \<open>csv\<close> it always produces a table. For \<open>xlsx\<close> and \<open>xls\<close> it
  produces a table when the workbook reader returns a workbook, and when the reader
  throws it fails with the reader's exception.
\<close>

theorem parseFileData_unsupported_format:
  "(parseFileData P X S f = Inl UnsupportedFormat \<longleftrightarrow>
      fileExt f \<notin> {''csv'', ''xlsx'', ''xls''}) \<and>
   (fileExt f \<in> {''csv'', ''xlsx'', ''xls''} \<longrightarrow>
      parseFileData P X S f \<noteq> Inl UnsupportedFormat \<and>
      (\<forall>td. parseFileData P X S f = Inr td \<longrightarrow> idColumnKey td = None)) \<and>
   (fileExt f = ''csv'' \<longrightarrow>
      (\<exists>td. parseFileData P X S f = Inr td \<and> idColumnKey td = None)) \<and>
   (fileExt f \<in> {''xlsx'', ''xls''} \<longrightarrow>
      (\<forall>wb. X (file_content f) = Inr wb \<longrightarrow>
         (\<exists>td. parseFileData P X S f = Inr td \<and> idColumnKey td = None)) \<and>
      (\<forall>msg. X (file_content f) = Inl msg \<longrightarrow>
         parseFileData P X S f = Inl (WorkbookError msg))) \<and>
   (\<forall>pre seg. file_name f = pre @ CHR ''.'' # seg \<and> CHR ''.'' \<notin> set seg \<longrightarrow>
      fileExt f = toLowerCase seg) \<and>
   (CHR ''.'' \<notin> set (file_name f) \<longrightarrow> fileExt f = toLowerCase (file_name f))"
proof (intro conjI)
  show "parseFileData P X S f = Inl UnsupportedFormat \<longleftrightarrow>
      fileExt f \<notin> {''csv'', ''xlsx'', ''xls''}"
    by (auto simp: parseFileData_def Let_def split: sum.splits)
  show "fileExt f \<in> {''csv'', ''xlsx'', ''xls''} \<longrightarrow>
      parseFileData P X S f \<noteq> Inl UnsupportedFormat \<and>
      (\<forall>td. parseFileData P X S f = Inr td \<longrightarrow> idColumnKey td = None)"
    by (auto simp: parseFileData_def Let_def split: sum.splits)
  show "fileExt f = ''csv'' \<longrightarrow>
      (\<exists>td. parseFileData P X S f = Inr td \<and> idColumnKey td = None)"
    by (simp add: parseFileData_def Let_def)
  show "fileExt f \<in> {''xlsx'', ''xls''} \<longrightarrow>
      (\<forall>wb. X (file_content f) = Inr wb \<longrightarrow>
         (\<exists>td. parseFileData P X S f = Inr td \<and> idColumnKey td = None)) \<and>
      (\<forall>msg. X (file_content f) = Inl msg \<longrightarrow>
         parseFileData P X S f = Inl (WorkbookError msg))"
    by (auto simp: parseFileData_def Let_def)
  show "\<forall>pre seg. file_name f = pre @ CHR ''.'' # seg \<and> CHR ''.'' \<notin> set seg \<longrightarrow>
      fileExt f = toLowerCase seg"
    using fileExt_after_last_dot by blast
  show "CHR ''.'' \<notin> set (file_name f) \<longrightarrow> fileExt f = toLowerCase (file_name f)"
    by (simp add: fileExt_def split_on_no_sep)
qed

theorem parseFileData_unsupported_format_witness:
  "parseFileData (\<lambda>f. [[(''id'', JSStr ''A1'')]])
     (\<lambda>c. Inl ''bad zip'' :: string + unit workbook) (\<lambda>w. [])
     \<lparr>file_name = ''notes.txt'', file_content = ''x''\<rparr> = Inl UnsupportedFormat \<and>
   (\<exists>td. parseFileData (\<lambda>f. [[(''id'', JSStr ''A1'')]])
           (\<lambda>c. Inl ''bad zip'' :: string + unit workbook) (\<lambda>w. [])
           \<lparr>file_name = ''piles.v2.CSV'', file_content = ''x''\<rparr> = Inr td \<and>
         idColumnKey td = None) \<and>
   (\<exists>td. parseFileData (\<lambda>f. [[(''id'', JSStr ''A1'')]])
           (\<lambda>c. Inr \<lparr>SheetNames = [''Sheet1''], Sheets = [(''Sheet1'', ())]\<rparr>) (\<lambda>w. [])
           \<lparr>file_name = ''piles.xlsx'', file_content = ''x''\<rparr> = Inr td \<and>
         idColumnKey td = None) \<and>
   parseFileData (\<lambda>f. [[(''id'', JSStr ''A1'')]])
     (\<lambda>c. Inl ''bad zip'' :: string + unit workbook) (\<lambda>w. [])
     \<lparr>file_name = ''piles.xlsx'', file_content = ''x''\<rparr> = Inl (WorkbookError ''bad zip'') \<and>
   fileExt \<lparr>file_name = ''piles.v2.CSV'', file_content = ''x''\<rparr> = toLowerCase ''CSV'' \<and>
   fileExt \<lparr>file_name = ''csv'', file_content = ''x''\<rparr> = toLowerCase ''csv''"
proof -
  let ?P = "\<lambda>f :: File. [[(''id'', JSStr ''A1'')]]"
  let ?X = "\<lambda>c :: string. Inl ''bad zip'' :: string + unit workbook"
  let ?Y = "\<lambda>c :: string. Inr \<lparr>SheetNames = [''Sheet1''], Sheets = [(''Sheet1'', ())]\<rparr>
              :: string + unit workbook"
  let ?S = "\<lambda>w :: unit option. [] :: jsobject list"
  let ?txt = "\<lparr>file_name = ''notes.txt'', file_content = ''x''\<rparr>"
  let ?csv = "\<lparr>file_name = ''piles.v2.CSV'', file_content = ''x''\<rparr>"
  let ?xlsx = "\<lparr>file_name = ''piles.xlsx'', file_content = ''x''\<rparr>"
  let ?plain = "\<lparr>file_name = ''csv'', file_content = ''x''\<rparr>"
  have e1: "fileExt ?txt = ''txt''" and e2: "fileExt ?csv = ''csv''"
    and e3: "fileExt ?xlsx = ''xlsx''"
    by code_simp+
  have n1: "fileExt ?txt \<notin> {''csv'', ''xlsx'', ''xls''}"
    unfolding e1 by simp
  have n3: "fileExt ?xlsx \<in> {''xlsx'', ''xls''}"
    unfolding e3 by simp
  note a = parseFileData_unsupported_format [of ?P ?X ?S ?txt, THEN conjunct1, THEN iffD2, OF n1]
  note b = parseFileData_unsupported_format [of ?P ?X ?S ?csv, THEN conjunct2, THEN conjunct2,
      THEN conjunct1, THEN mp, OF e2]
  have w: "?Y (file_content ?xlsx) = Inr \<lparr>SheetNames = [''Sheet1''], Sheets = [(''Sheet1'', ())]\<rparr>"
    by simp
  note c = parseFileData_unsupported_format [of ?P ?Y ?S ?xlsx, THEN conjunct2, THEN conjunct2,
      THEN conjunct2, THEN conjunct1, THEN mp, OF n3, THEN conjunct1, rule_format, OF w]
  have v: "?X (file_content ?xlsx) = Inl ''bad zip''"
    by simp
  note c' = parseFileData_unsupported_format [of ?P ?X ?S ?xlsx, THEN conjunct2, THEN conjunct2,
      THEN conjunct2, THEN conjunct1, THEN mp, OF n3, THEN conjunct2, rule_format, OF v]
  have d0: "file_name ?csv = ''piles.v2'' @ CHR ''.'' # ''CSV'' \<and> CHR ''.'' \<notin> set ''CSV''"
    by simp
  note d = parseFileData_unsupported_format [of ?P ?X ?S ?csv, THEN conjunct2, THEN conjunct2,
      THEN conjunct2, THEN conjunct2, THEN conjunct1, rule_format, OF d0]
  have g0: "CHR ''.'' \<notin> set (file_name ?plain)"
    by simp
  note g = parseFileData_unsupported_format [of ?P ?X ?S ?plain, THEN conjunct2, THEN conjunct2,
      THEN conjunct2, THEN conjunct2, THEN conjunct2, THEN mp, OF g0, unfolded File.simps]
  from a b c c' d g show ?thesis
    by (intro conjI)
qed

text \<open>
  Claim C10. For every file whose extension is \<open>csv\<close>, \<open>parseFileData\<close> resolves
  with a table and does not reject, whatever the content: the rows are those the
  delimited-text parser delivers, the columns are the keys of the first row (no column
  when there is no row), and no identifier column is selected. The upload handler
  therefore installs the table and shows no failure notification.
\<close>

theorem csv_upload_resolves:
  assumes "fileExt f = ''csv''"
  shows "parseFileData P X S f =
           Inr \<lparr>columns = columns_of (P f), rows = P f, idColumnKey = None\<rparr> \<and>
         map col_value (columns_of (P f)) = (case P f of [] \<Rightarrow> [] | r # _ \<Rightarrow> Object_keys r) \<and>
         map col_label (columns_of (P f)) = (case P f of [] \<Rightarrow> [] | r # _ \<Rightarrow> Object_keys r) \<and>
         handleTableFileUpload P X S st f =
           st\<lparr>table := \<lparr>columns = columns_of (P f), rows = P f, idColumnKey = None\<rparr>\<rparr> \<and>
         toasts (handleTableFileUpload P X S st f) = toasts st"
proof -
  have p: "parseFileData P X S f =
      Inr \<lparr>columns = columns_of (P f), rows = P f, idColumnKey = None\<rparr>"
    using assms by (simp add: parseFileData_def Let_def)
  have c: "map col_value (columns_of (P f)) = (case P f of [] \<Rightarrow> [] | r # _ \<Rightarrow> Object_keys r)"
    "map col_label (columns_of (P f)) = (case P f of [] \<Rightarrow> [] | r # _ \<Rightarrow> Object_keys r)"
    by (simp_all add: columns_of_def Object_keys_def comp_def split: list.splits)
  have h: "handleTableFileUpload P X S st f =
      st\<lparr>table := \<lparr>columns = columns_of (P f), rows = P f, idColumnKey = None\<rparr>\<rparr>"
    by (simp add: handleTableFileUpload_def p)
  from p c h show ?thesis by simp
qed

theorem csv_upload_resolves_witness:
  "parseFileData (\<lambda>f. [[(''id'', JSStr ''A1''), (''name'', JSStr ''Foo'')]])
     (\<lambda>c. Inl ''bad zip'' :: string + unit workbook) (\<lambda>w. [])
     \<lparr>file_name = ''piles.v2.CSV'', file_content = ''x''\<rparr> =
     Inr \<lparr>columns = [\<lparr>col_value = ''id'', col_label = ''id''\<rparr>,
                     \<lparr>col_value = ''name'', col_label = ''name''\<rparr>],
          rows = [[(''id'', JSStr ''A1''), (''name'', JSStr ''Foo'')]],
          idColumnKey = None\<rparr> \<and>
   parseFileData (\<lambda>f. [])
     (\<lambda>c. Inl ''bad zip'' :: string + unit workbook) (\<lambda>w. [])
     \<lparr>file_name = ''piles.v2.CSV'', file_content = ''x''\<rparr> =
     Inr \<lparr>columns = [], rows = [], idColumnKey = None\<rparr> \<and>
   toasts (handleTableFileUpload (\<lambda>f. [])
     (\<lambda>c. Inl ''bad zip'' :: string + unit workbook) (\<lambda>w. [])
     \<lparr>table = \<lparr>columns = [], rows = [], idColumnKey = None\<rparr>, toasts = []\<rparr>
     \<lparr>file_name = ''piles.v2.CSV'', file_content = ''x''\<rparr>) = []"
proof -
  let ?P = "\<lambda>f :: File. [[(''id'', JSStr ''A1''), (''name'', JSStr ''Foo'')]]"
  let ?Q = "\<lambda>f :: File. [] :: jsobject list"
  let ?X = "\<lambda>c :: string. Inl ''bad zip'' :: string + unit workbook"
  let ?S = "\<lambda>w :: unit option. [] :: jsobject list"
  let ?st = "\<lparr>table = \<lparr>columns = [], rows = [], idColumnKey = None\<rparr>, toasts = []\<rparr>"
  let ?csv = "\<lparr>file_name = ''piles.v2.CSV'', file_content = ''x''\<rparr>"
  have e: "fileExt ?csv = ''csv''"
    by code_simp
  note a = csv_upload_resolves [OF e, of ?P ?X ?S ?st, THEN conjunct1]
  note b = csv_upload_resolves [OF e, of ?Q ?X ?S ?st, THEN conjunct1]
  note c = csv_upload_resolves [OF e, of ?Q ?X ?S ?st, THEN conjunct2, THEN conjunct2,
      THEN conjunct2, THEN conjunct2]
  from a b c show ?thesis
    by (simp add: columns_of_def Object_keys_def)
qed

text \<open>
  Claim C8, as stated (failure also when the parsed value lacks a \<open>features\<close> array),
  fails: \<open>parseGeoJsonFile\<close> returns whatever the text parses to. On the text \<open>{}\<close>,
  which any JSON parser reads as the empty object, it succeeds with the empty object,
  which has no \<open>features\<close> array.
\<close>

theorem parseGeoJsonFile_no_features_counterexample:
  "parseGeoJsonFile (\<lambda>t. if t = ''{}'' then Some (JObject []) else None)
     \<lparr>file_name = ''empty.geojson'', file_content = ''{}''\<rparr> = Inr (JObject []) \<and>
   \<not> has_features_array (JObject [])"
  by (simp add: parseGeoJsonFile_def has_features_array_def)

text \<open>
  Claim C8, amended: \<open>parseGeoJsonFile\<close> fails, with the malformed-GeoJSON error and
  no other, exactly when the text of the file fails to parse as JSON; for every text
  that parses it succeeds and returns the parsed value as it is, whether or not that
  value has a \<open>features\<close> array.
\<close>

theorem parseGeoJsonFile_fails_iff_parse_fails:
  "(parseGeoJsonFile J f = Inl MalformedGeoJson \<longleftrightarrow> J (file_content f) = None) \<and>
   (\<forall>e. parseGeoJsonFile J f = Inl e \<longrightarrow> e = MalformedGeoJson) \<and>
   (\<forall>v. J (file_content f) = Some v \<longrightarrow> parseGeoJsonFile J f = Inr v)"
  by (simp add: parseGeoJsonFile_def split: option.splits)

theorem parseGeoJsonFile_fails_iff_parse_fails_witness:
  "parseGeoJsonFile (\<lambda>t. if t = ''{}'' then Some (JObject []) else None)
     \<lparr>file_name = ''empty.geojson'', file_content = ''{}''\<rparr> = Inr (JObject []) \<and>
   parseGeoJsonFile (\<lambda>t. if t = ''{}'' then Some (JObject []) else None)
     \<lparr>file_name = ''cut.geojson'', file_content = ''{''\<rparr> = Inl MalformedGeoJson"
proof -
  let ?J = "\<lambda>t. if t = ''{}'' then Some (JObject []) else None"
  let ?ok = "\<lparr>file_name = ''empty.geojson'', file_content = ''{}''\<rparr>"
  let ?cut = "\<lparr>file_name = ''cut.geojson'', file_content = ''{''\<rparr>"
  have p1: "?J (file_content ?ok) = Some (JObject [])" and p2: "?J (file_content ?cut) = None"
    by simp_all
  note a = parseGeoJsonFile_fails_iff_parse_fails [of ?J ?ok, THEN conjunct2, THEN conjunct2,
      rule_format, OF p1]
  note b = parseGeoJsonFile_fails_iff_parse_fails [of ?J ?cut, THEN conjunct1, THEN iffD2, OF p2]
  from a b show ?thesis
    by (rule conjI)
qed

section \<open>Search filtering\<close>

lemma filterMonopiles_idem:
  "filterMonopiles fmt (filterMonopiles fmt rs q k) q k = filterMonopiles fmt rs q k"
  by (simp add: filterMonopiles_def)

lemma filterMonopiles_subseq: "subseq (filterMonopiles fmt rs q k) rs"
  by (simp add: filterMonopiles_def)

text \<open>
  Claim C5. For every record list and identifier column key, filtering with the empty
  query returns the record list itself; for every query, filtering the result again
  with the same query returns it unchanged, and the result is a subsequence of the
  input (the same records in the same order, some left out), hence a subset.
\<close>

theorem filterMonopiles_empty_idempotent_subset:
  "filterMonopiles fmt rs [] k = rs \<and>
   filterMonopiles fmt (filterMonopiles fmt rs q k) q k = filterMonopiles fmt rs q k \<and>
   subseq (filterMonopiles fmt rs q k) rs \<and>
   set (filterMonopiles fmt rs q k) \<subseteq> set rs"
proof -
  have "filterMonopiles fmt rs [] k = rs"
    by (simp add: filterMonopiles_def)
  moreover have "set (filterMonopiles fmt rs q k) \<subseteq> set rs"
    by (auto simp: filterMonopiles_def)
  ultimately show ?thesis
    using filterMonopiles_idem [of fmt rs q k] filterMonopiles_subseq [of fmt rs q k] by simp
qed

theorem filterMonopiles_empty_idempotent_subset_witness:
  "filterMonopiles (\<lambda>v. ''0'')
     [[(''id'', JSStr ''A1''), (''name'', JSStr ''Foo'')],
      [(''id'', JSStr ''A2''), (''name'', JSStr ''Bar'')]] ''foo'' ''id'' =
     [[(''id'', JSStr ''A1''), (''name'', JSStr ''Foo'')]] \<and>
   filterMonopiles (\<lambda>v. ''0'')
     [[(''id'', JSStr ''A1''), (''name'', JSStr ''Foo'')]] ''foo'' ''id'' =
     [[(''id'', JSStr ''A1''), (''name'', JSStr ''Foo'')]] \<and>
   filterMonopiles (\<lambda>v. ''0'')
     [[(''id'', JSStr ''A1''), (''name'', JSStr ''Foo'')],
      [(''id'', JSStr ''A2''), (''name'', JSStr ''Bar'')]] [] ''id'' =
     [[(''id'', JSStr ''A1''), (''name'', JSStr ''Foo'')],
      [(''id'', JSStr ''A2''), (''name'', JSStr ''Bar'')]]"
proof -
  let ?rs = "[[(''id'', JSStr ''A1''), (''name'', JSStr ''Foo'')],
              [(''id'', JSStr ''A2''), (''name'', JSStr ''Bar'')]]"
  have e: "filterMonopiles (\<lambda>v. ''0'') ?rs ''foo'' ''id'' =
             [[(''id'', JSStr ''A1''), (''name'', JSStr ''Foo'')]]"
    by code_simp
  note t = filterMonopiles_empty_idempotent_subset [of "\<lambda>v. ''0''" ?rs "''id''" "''foo''"]
  from t have t1: "filterMonopiles (\<lambda>v. ''0'') ?rs [] ''id'' = ?rs"
    by (rule conjunct1)
  from t have t2:
    "filterMonopiles (\<lambda>v. ''0'') (filterMonopiles (\<lambda>v. ''0'') ?rs ''foo'' ''id'') ''foo'' ''id'' =
     filterMonopiles (\<lambda>v. ''0'') ?rs ''foo'' ''id''"
    by blast
  from t2 have t3:
    "filterMonopiles (\<lambda>v. ''0'') [[(''id'', JSStr ''A1''), (''name'', JSStr ''Foo'')]] ''foo'' ''id'' =
     [[(''id'', JSStr ''A1''), (''name'', JSStr ''Foo'')]]"
    unfolding e .
  show ?thesis
    using e t1 t3 by blast
qed

section \<open>Map filters and the camera\<close>

lemma camera_setFilter: "map_camera (setFilter m i f) = map_camera m"
  by (simp add: setFilter_def split: option.splits)

lemma sources_setFilter: "sources (setFilter m i f) = sources m"
  by (simp add: setFilter_def split: option.splits)

lemma getLayer_setFilter:
  "getLayer (setFilter m i f) j =
     (if j = i then map_option (\<lambda>l. l\<lparr>layer_filter := f\<rparr>) (getLayer m i) else getLayer m j)"
  by (simp add: setFilter_def getLayer_def update_conv' split: option.splits)

lemma erase_update:
  "map_of ls i = Some l \<Longrightarrow>
   map (\<lambda>(j, x). (j, x\<lparr>layer_filter := None\<rparr>)) (AList.update i (l\<lparr>layer_filter := f\<rparr>) ls) =
   map (\<lambda>(j, x). (j, x\<lparr>layer_filter := None\<rparr>)) ls"
  by (induction ls) (auto split: if_splits)

lemma erase_setFilter:
  "map (\<lambda>(j, x). (j, x\<lparr>layer_filter := None\<rparr>)) (layers (setFilter m i f)) =
   map (\<lambda>(j, x). (j, x\<lparr>layer_filter := None\<rparr>)) (layers m)"
  by (simp add: setFilter_def getLayer_def erase_update split: option.splits)

lemma show_all_step_frame:
  "map_camera (show_all_step l m) = map_camera m \<and> sources (show_all_step l m) = sources m \<and>
   map (\<lambda>(j, x). (j, x\<lparr>layer_filter := None\<rparr>)) (layers (show_all_step l m)) =
   map (\<lambda>(j, x). (j, x\<lparr>layer_filter := None\<rparr>)) (layers m)"
  by (simp add: show_all_step_def camera_setFilter sources_setFilter erase_setFilter)

lemma apply_filter_step_frame:
  "map_camera (apply_filter_step k vs l m) = map_camera m \<and>
   sources (apply_filter_step k vs l m) = sources m \<and>
   map (\<lambda>(j, x). (j, x\<lparr>layer_filter := None\<rparr>)) (layers (apply_filter_step k vs l m)) =
   map (\<lambda>(j, x). (j, x\<lparr>layer_filter := None\<rparr>)) (layers m)"
  by (simp add: apply_filter_step_def Let_def camera_setFilter sources_setFilter erase_setFilter
      split: option.splits)

lemma fold_frame:
  assumes "\<And>l m. map_camera (g l m) = map_camera m \<and> sources (g l m) = sources m \<and>
   map (\<lambda>(j, x). (j, x\<lparr>layer_filter := None\<rparr>)) (layers (g l m)) =
   map (\<lambda>(j, x). (j, x\<lparr>layer_filter := None\<rparr>)) (layers m)"
  shows "map_camera (fold g ls m) = map_camera m \<and> sources (fold g ls m) = sources m \<and>
   map (\<lambda>(j, x). (j, x\<lparr>layer_filter := None\<rparr>)) (layers (fold g ls m)) =
   map (\<lambda>(j, x). (j, x\<lparr>layer_filter := None\<rparr>)) (layers m)"
  using assms by (induction ls arbitrary: m) simp_all

lemma filterGeoJsonByProperty_frame:
  "map_camera (filterGeoJsonByProperty m k vs) = map_camera m \<and>
   sources (filterGeoJsonByProperty m k vs) = sources m \<and>
   map (\<lambda>(j, x). (j, x\<lparr>layer_filter := None\<rparr>)) (layers (filterGeoJsonByProperty m k vs)) =
   map (\<lambda>(j, x). (j, x\<lparr>layer_filter := None\<rparr>)) (layers m)"
  unfolding filterGeoJsonByProperty_def
  using fold_frame [of show_all_step overlay_layers m, OF show_all_step_frame]
    fold_frame [of "apply_filter_step k vs" overlay_layers m, OF apply_filter_step_frame]
  by simp

lemma filterMonopilesByIds_frame:
  "map_camera (filterMonopilesByIds m ids k) = map_camera m \<and>
   sources (filterMonopilesByIds m ids k) = sources m \<and>
   map (\<lambda>(j, x). (j, x\<lparr>layer_filter := None\<rparr>)) (layers (filterMonopilesByIds m ids k)) =
   map (\<lambda>(j, x). (j, x\<lparr>layer_filter := None\<rparr>)) (layers m)"
  by (simp add: filterMonopilesByIds_def camera_setFilter sources_setFilter erase_setFilter)

lemma getLayer_show_all_step:
  "getLayer (show_all_step i m) j =
     (if j = i then map_option (\<lambda>l. l\<lparr>layer_filter := baseFilter i\<rparr>) (getLayer m i)
      else getLayer m j)"
  by (auto simp: show_all_step_def getLayer_setFilter baseFilter_def)

lemma fold_show_all_step:
  "getLayer (fold show_all_step [a, b, c] m) j =
     (if j = c then map_option (\<lambda>l. l\<lparr>layer_filter := baseFilter c\<rparr>)
                      (getLayer (show_all_step b (show_all_step a m)) c)
      else if j = b then map_option (\<lambda>l. l\<lparr>layer_filter := baseFilter b\<rparr>)
                      (getLayer (show_all_step a m) b)
      else if j = a then map_option (\<lambda>l. l\<lparr>layer_filter := baseFilter a\<rparr>) (getLayer m a)
      else getLayer m j)"
  by (simp add: getLayer_show_all_step)

lemma filterGeoJsonByProperty_clear:
  assumes "getSource m ''geojson-data'' \<noteq> None" and "lid \<in> set overlay_layers"
  shows "getLayer (filterGeoJsonByProperty m k []) lid =
         map_option (\<lambda>l. l\<lparr>layer_filter := baseFilter lid\<rparr>) (getLayer m lid)"
proof -
  have unfold: "filterGeoJsonByProperty m k [] = fold show_all_step overlay_layers m"
    using assms(1) by (auto simp: filterGeoJsonByProperty_def)
  from assms(2) consider "lid = ''geojson-fill-layer''" | "lid = ''geojson-line-layer''"
    | "lid = ''geojson-point-layer''"
    by (auto simp: overlay_layers_def)
  then show ?thesis
  proof cases
    case 1
    then show ?thesis
      unfolding unfold overlay_layers_def fold_show_all_step by simp
  next
    case 2
    then show ?thesis
      unfolding unfold overlay_layers_def fold_show_all_step getLayer_show_all_step by simp
  next
    case 3
    then show ?thesis
      unfolding unfold overlay_layers_def fold_show_all_step getLayer_show_all_step by simp
  qed
qed

lemma filterMonopilesByIds_clear:
  assumes "getSource m ''monopile-data'' \<noteq> None"
  shows "getLayer (filterMonopilesByIds m [] k) ''monopile-layer'' =
         map_option (\<lambda>l. l\<lparr>layer_filter := None\<rparr>) (getLayer m ''monopile-layer'')"
  using assms by (auto simp: filterMonopilesByIds_def getLayer_setFilter)

text \<open>
  Claim C1. For every identifier list (empty or not), the point filter
  \<open>filterMonopilesByIds\<close> and the overlay filter \<open>filterGeoJsonByProperty\<close> leave the
  camera of the map as it was; they leave the sources as they were, and the layers too
  apart from their filter expressions (the layers with the filters erased are the same
  before and after). With the empty list the filter is cleared, so that all features
  are shown: the point layer has no filter, and each overlay layer has only its
  geometry-type filter (Point on the point layer, Polygon on the fill layer, none on the
  line layer), with no restriction on identifiers.
\<close>

theorem filters_leave_camera_unchanged:
  "map_camera (filterMonopilesByIds m ids k) = map_camera m \<and>
   map_camera (filterGeoJsonByProperty m k ids) = map_camera m \<and>
   sources (filterMonopilesByIds m ids k) = sources m \<and>
   sources (filterGeoJsonByProperty m k ids) = sources m \<and>
   map (\<lambda>(j, x). (j, x\<lparr>layer_filter := None\<rparr>)) (layers (filterMonopilesByIds m ids k)) =
   map (\<lambda>(j, x). (j, x\<lparr>layer_filter := None\<rparr>)) (layers m) \<and>
   map (\<lambda>(j, x). (j, x\<lparr>layer_filter := None\<rparr>)) (layers (filterGeoJsonByProperty m k ids)) =
   map (\<lambda>(j, x). (j, x\<lparr>layer_filter := None\<rparr>)) (layers m) \<and>
   (getSource m ''monopile-data'' \<noteq> None \<longrightarrow>
      getLayer (filterMonopilesByIds m [] k) ''monopile-layer'' =
      map_option (\<lambda>l. l\<lparr>layer_filter := None\<rparr>) (getLayer m ''monopile-layer'')) \<and>
   (getSource m ''geojson-data'' \<noteq> None \<longrightarrow>
      (\<forall>lid \<in> set overlay_layers.
         getLayer (filterGeoJsonByProperty m k []) lid =
         map_option (\<lambda>l. l\<lparr>layer_filter := baseFilter lid\<rparr>) (getLayer m lid)))"
  using filterMonopilesByIds_frame [of m ids k] filterGeoJsonByProperty_frame [of m k ids]
    filterMonopilesByIds_clear [of m k] filterGeoJsonByProperty_clear [of m _ k]
  by blast

theorem filters_leave_camera_unchanged_witness:
  "map_camera
     (filterMonopilesByIds
        \<lparr>map_camera = \<lparr>center = (0, 20), zoom = 2\<rparr>,
         sources = [(''geojson-data'', \<lparr>ctype = ''FeatureCollection'', features = []\<rparr>),
                    (''monopile-data'', \<lparr>ctype = ''FeatureCollection'', features = []\<rparr>)],
         layers = [(''geojson-point-layer'',
                    \<lparr>layer_type = ''circle'', layer_source = ''geojson-data'', paint = [],
                     layer_filter = Some (AllOf (TypeEq ''Point'') (InProperty ''id'' [JSStr ''A1'']))\<rparr>),
                   (''monopile-layer'',
                    \<lparr>layer_type = ''circle'', layer_source = ''monopile-data'', paint = [],
                     layer_filter = Some (InProperty ''id'' [JSStr ''A1''])\<rparr>)]\<rparr>
        [] ''id'') = \<lparr>center = (0, 20), zoom = 2\<rparr> \<and>
   getLayer
     (filterMonopilesByIds
        \<lparr>map_camera = \<lparr>center = (0, 20), zoom = 2\<rparr>,
         sources = [(''geojson-data'', \<lparr>ctype = ''FeatureCollection'', features = []\<rparr>),
                    (''monopile-data'', \<lparr>ctype = ''FeatureCollection'', features = []\<rparr>)],
         layers = [(''geojson-point-layer'',
                    \<lparr>layer_type = ''circle'', layer_source = ''geojson-data'', paint = [],
                     layer_filter = Some (AllOf (TypeEq ''Point'') (InProperty ''id'' [JSStr ''A1'']))\<rparr>),
                   (''monopile-layer'',
                    \<lparr>layer_type = ''circle'', layer_source = ''monopile-data'', paint = [],
                     layer_filter = Some (InProperty ''id'' [JSStr ''A1''])\<rparr>)]\<rparr>
        [] ''id'') ''monopile-layer'' =
     Some \<lparr>layer_type = ''circle'', layer_source = ''monopile-data'', paint = [],
           layer_filter = None\<rparr> \<and>
   getLayer
     (filterGeoJsonByProperty
        \<lparr>map_camera = \<lparr>center = (0, 20), zoom = 2\<rparr>,
         sources = [(''geojson-data'', \<lparr>ctype = ''FeatureCollection'', features = []\<rparr>),
                    (''monopile-data'', \<lparr>ctype = ''FeatureCollection'', features = []\<rparr>)],
         layers = [(''geojson-point-layer'',
                    \<lparr>layer_type = ''circle'', layer_source = ''geojson-data'', paint = [],
                     layer_filter = Some (AllOf (TypeEq ''Point'') (InProperty ''id'' [JSStr ''A1'']))\<rparr>),
                   (''monopile-layer'',
                    \<lparr>layer_type = ''circle'', layer_source = ''monopile-data'', paint = [],
                     layer_filter = Some (InProperty ''id'' [JSStr ''A1''])\<rparr>)]\<rparr>
        ''id'' []) ''geojson-point-layer'' =
     Some \<lparr>layer_type = ''circle'', layer_source = ''geojson-data'', paint = [],
           layer_filter = Some (TypeEq ''Point'')\<rparr>"
proof -
  let ?m = "\<lparr>map_camera = \<lparr>center = (0, 20), zoom = 2\<rparr>,
         sources = [(''geojson-data'', \<lparr>ctype = ''FeatureCollection'', features = []\<rparr>),
                    (''monopile-data'', \<lparr>ctype = ''FeatureCollection'', features = []\<rparr>)],
         layers = [(''geojson-point-layer'',
                    \<lparr>layer_type = ''circle'', layer_source = ''geojson-data'', paint = [],
                     layer_filter = Some (AllOf (TypeEq ''Point'') (InProperty ''id'' [JSStr ''A1'']))\<rparr>),
                   (''monopile-layer'',
                    \<lparr>layer_type = ''circle'', layer_source = ''monopile-data'', paint = [],
                     layer_filter = Some (InProperty ''id'' [JSStr ''A1''])\<rparr>)]\<rparr>"
  have s1: "getSource ?m ''monopile-data'' \<noteq> None" and s2: "getSource ?m ''geojson-data'' \<noteq> None"
    by (simp_all add: getSource_def)
  have p: "''geojson-point-layer'' \<in> set overlay_layers"
    by (simp add: overlay_layers_def)
  have l1: "getLayer ?m ''monopile-layer'' =
      Some \<lparr>layer_type = ''circle'', layer_source = ''monopile-data'', paint = [],
            layer_filter = Some (InProperty ''id'' [JSStr ''A1''])\<rparr>"
    and l2: "getLayer ?m ''geojson-point-layer'' =
      Some \<lparr>layer_type = ''circle'', layer_source = ''geojson-data'', paint = [],
            layer_filter = Some (AllOf (TypeEq ''Point'') (InProperty ''id'' [JSStr ''A1'']))\<rparr>"
    by (simp_all add: getLayer_def)
  have b: "baseFilter ''geojson-point-layer'' = Some (TypeEq ''Point'')"
    by (simp add: baseFilter_def)
  note t = filters_leave_camera_unchanged [of ?m "[]" "''id''"]
  from t have c: "map_camera (filterMonopilesByIds ?m [] ''id'') = map_camera ?m"
    by (rule conjunct1)
  from t s1 have f1: "getLayer (filterMonopilesByIds ?m [] ''id'') ''monopile-layer'' =
      map_option (\<lambda>l. l\<lparr>layer_filter := None\<rparr>) (getLayer ?m ''monopile-layer'')"
    by blast
  from t s2 p have f2: "getLayer (filterGeoJsonByProperty ?m ''id'' []) ''geojson-point-layer'' =
      map_option (\<lambda>l. l\<lparr>layer_filter := baseFilter ''geojson-point-layer''\<rparr>)
        (getLayer ?m ''geojson-point-layer'')"
    by blast
  show ?thesis
    unfolding c f1 f2 l1 l2 b by simp
qed

end
